theory Spec2Isabelle
  imports Complex_Main
begin

section \<open>JavaScript values\<close>

text \<open>
  The bridges receive \<^verbatim>\<open>decoded.data as any\<close>: at run time a response is an arbitrary
  JSON value (or \<^verbatim>\<open>undefined\<close> when the key is missing), whatever its TypeScript type says.
  Numbers are the decimal fractions of JSON; the program does no arithmetic on them.
\<close>

datatype jsval =
    JUndefined
  | JNull
  | JBool bool
  | JNum rat
  | JStr string
  | JArr "jsval list"
  | JObj "(string \<times> jsval) list"

text \<open>What \<^verbatim>\<open>if (v)\<close>, \<^verbatim>\<open>!v\<close> and \<^verbatim>\<open>a || b\<close> test.\<close>

fun truthy :: "jsval \<Rightarrow> bool" where
  "truthy JUndefined = False"
| "truthy JNull = False"
| "truthy (JBool b) = b"
| "truthy (JNum n) = (n \<noteq> 0)"
| "truthy (JStr s) = (s \<noteq> [])"
| "truthy (JArr xs) = True"
| "truthy (JObj fs) = True"

text \<open>An exception thrown inside \<^verbatim>\<open>Effect.gen\<close>: the fibre dies with a defect, which
  \<^verbatim>\<open>Effect.catchAll\<close> does not handle.\<close>

datatype defect = TypeError

text \<open>
  Property read \<^verbatim>\<open>v.k\<close>. Reading a property of \<^verbatim>\<open>null\<close> or \<^verbatim>\<open>undefined\<close> throws; on an
  object a missing key reads as \<^verbatim>\<open>undefined\<close>; the keys read by this program
  (\<^verbatim>\<open>requestId\<close>, \<^verbatim>\<open>error\<close>, \<^verbatim>\<open>result\<close>, \<^verbatim>\<open>content\<close>) are not properties of booleans,
  numbers, strings or arrays.
\<close>

definition field :: "(string \<times> jsval) list \<Rightarrow> string \<Rightarrow> jsval" where
  "field fs k = (case map_of fs k of None \<Rightarrow> JUndefined | Some v \<Rightarrow> v)"

fun get_prop :: "jsval \<Rightarrow> string \<Rightarrow> defect + jsval" where
  "get_prop JUndefined k = Inl TypeError"
| "get_prop JNull k = Inl TypeError"
| "get_prop (JObj fs) k = Inr (field fs k)"
| "get_prop (JBool b) k = Inr JUndefined"
| "get_prop (JNum n) k = Inr JUndefined"
| "get_prop (JStr s) k = Inr JUndefined"
| "get_prop (JArr xs) k = Inr JUndefined"

section \<open>Errors, exits and the bridge state\<close>

text \<open>The error classes of \<^verbatim>\<open>agent.service.ts\<close>, \<^verbatim>\<open>dapr.service.ts\<close> and \<^verbatim>\<open>errors.ts\<close>,
  with the fields their constructors store.\<close>

datatype error =
    McpToolError string jsval             \<comment> \<open>toolName, cause\<close>
  | McpToolTimeoutError string string nat \<comment> \<open>toolName, requestId, timeoutMs\<close>
  | DaprError string string               \<comment> \<open>operation, message\<close>
  | LlmClientError string jsval           \<comment> \<open>operation, message\<close>
  | TimeoutError string nat string        \<comment> \<open>operation, timeoutMs, message\<close>

text \<open>The cause of a failed effect: one failure, or the failures of both sides of a race.\<close>

datatype cause = Fail error | Parallel cause cause

type_synonym exit = "cause + jsval"

datatype log_level = Debug | Info | Warning | Error

text \<open>Everything observable that an operation does, in the order it does it.\<close>

datatype action =
    Log log_level string
  | RegistrySet string      \<comment> \<open>\<^verbatim>\<open>map.set(requestId, ...)\<close>\<close>
  | RegistryDelete string   \<comment> \<open>\<^verbatim>\<open>map.delete(requestId)\<close>\<close>
  | Publish string string jsval  \<comment> \<open>\<^verbatim>\<open>client.pubsub.publish(pubsubName, topicName, data)\<close>\<close>
  | Resolve nat exit        \<comment> \<open>a \<^verbatim>\<open>Deferred\<close> completed by this call\<close>
  | Invoke string           \<comment> \<open>call of a collaborator service\<close>
  | Respond nat             \<comment> \<open>\<^verbatim>\<open>res.status(n).json(...)\<close>\<close>

text \<open>\<^verbatim>\<open>interface PendingRequest\<close>; the record of \<^verbatim>\<open>LlmClientService\<close> has no tool name.
  The \<^verbatim>\<open>Deferred\<close> object is a reference into the store of deferreds.\<close>

record pending_request =
  deferred :: nat
  timestamp :: nat
  toolName :: "string option"

text \<open>
  One service instance: the \<^verbatim>\<open>Ref\<close> holding the \<^verbatim>\<open>Map\<close> of pending requests, the
  \<^verbatim>\<open>Deferred\<close> objects allocated so far (\<open>None\<close>: not completed yet) and the actions done.
\<close>

record bridge =
  pendingRequests :: "string \<rightharpoonup> pending_request"
  deferreds :: "nat \<rightharpoonup> exit"
  nextDeferred :: nat
  trace :: "action list"

definition emit :: "action \<Rightarrow> bridge \<Rightarrow> bridge" where
  "emit a st = st\<lparr>trace := trace st @ [a]\<rparr>"

text \<open>\<^verbatim>\<open>Deferred.make\<close>: a new, uncompleted deferred.\<close>

definition Deferred_make :: "bridge \<Rightarrow> nat \<times> bridge" where
  "Deferred_make st =
     (nextDeferred st,
      st\<lparr>deferreds := (deferreds st)(nextDeferred st := None),
         nextDeferred := Suc (nextDeferred st)\<rparr>)"

text \<open>\<^verbatim>\<open>Deferred.succeed\<close> and \<^verbatim>\<open>Deferred.fail\<close> complete a deferred that is not completed
  yet and do nothing to one that is.\<close>

definition Deferred_done :: "nat \<Rightarrow> exit \<Rightarrow> bridge \<Rightarrow> bridge" where
  "Deferred_done d ex st =
     (case deferreds st d of
        None \<Rightarrow> emit (Resolve d ex) (st\<lparr>deferreds := (deferreds st)(d \<mapsto> ex)\<rparr>)
      | Some done \<Rightarrow> st)"

definition Deferred_succeed :: "nat \<Rightarrow> jsval \<Rightarrow> bridge \<Rightarrow> bridge" where
  "Deferred_succeed d v = Deferred_done d (Inr v)"

definition Deferred_fail :: "nat \<Rightarrow> error \<Rightarrow> bridge \<Rightarrow> bridge" where
  "Deferred_fail d e = Deferred_done d (Inl (Fail e))"

text \<open>\<^verbatim>\<open>Ref.update(pendingRequests, map => map.set(requestId, ...))\<close> and
  \<^verbatim>\<open>Ref.update(pendingRequests, map => { map.delete(requestId); return map })\<close>.\<close>

definition registry_set :: "string \<Rightarrow> pending_request \<Rightarrow> bridge \<Rightarrow> bridge" where
  "registry_set rid pr st =
     emit (RegistrySet rid) (st\<lparr>pendingRequests := (pendingRequests st)(rid \<mapsto> pr)\<rparr>)"

definition registry_delete :: "string \<Rightarrow> bridge \<Rightarrow> bridge" where
  "registry_delete rid st =
     emit (RegistryDelete rid) (st\<lparr>pendingRequests := (pendingRequests st)(rid := None)\<rparr>)"

text \<open>\<^verbatim>\<open>pending.get(key)\<close>: the keys of the map are strings, so any other key finds nothing.\<close>

fun registry_get :: "(string \<rightharpoonup> pending_request) \<Rightarrow> jsval \<Rightarrow> pending_request option" where
  "registry_get m (JStr k) = m k"
| "registry_get m v = None"

text \<open>\<^verbatim>\<open>request.toolName\<close>: every record that \<^verbatim>\<open>callTool\<close> stores has one.\<close>

definition tool_name :: "pending_request \<Rightarrow> string" where
  "tool_name request = (case toolName request of Some name \<Rightarrow> name | None \<Rightarrow> ''undefined'')"

section \<open>handleResponse\<close>

text \<open>\<^verbatim>\<open>McpBridgeService.handleResponse\<close> (\<^verbatim>\<open>agent.service.ts\<close>). The first statement reads
  \<^verbatim>\<open>response.requestId\<close>, which throws on \<^verbatim>\<open>null\<close> and \<^verbatim>\<open>undefined\<close>.\<close>

definition McpBridge_handleResponse :: "bridge \<Rightarrow> jsval \<Rightarrow> defect + bridge" where
  "McpBridge_handleResponse st response =
     (case get_prop response ''requestId'' of
        Inl thrown \<Rightarrow> Inl thrown
      | Inr requestId \<Rightarrow>
          (let st1 = emit (Log Debug ''Received MCP tool response'') st in
           case registry_get (pendingRequests st1) requestId of
             None \<Rightarrow> Inr (emit (Log Warning ''Received response for unknown request'') st1)
           | Some request \<Rightarrow>
               (case get_prop response ''error'' of
                  Inl thrown \<Rightarrow> Inl thrown
                | Inr err \<Rightarrow>
                    if truthy err then
                      Inr (Deferred_fail (deferred request)
                             (McpToolError (tool_name request) err)
                             (emit (Log Error ''MCP tool request failed'') st1))
                    else
                      (case get_prop response ''result'' of
                         Inl thrown \<Rightarrow> Inl thrown
                       | Inr result \<Rightarrow>
                           Inr (Deferred_succeed (deferred request) result
                                  (emit (Log Info ''MCP tool request succeeded'') st1))))))"

text \<open>\<^verbatim>\<open>LlmClientService.handleResponse\<close> (\<^verbatim>\<open>llm-client.service.ts\<close>): the same shape; the
  success value is \<^verbatim>\<open>response.content\<close>, and the log line of the success branch also
  reads \<^verbatim>\<open>response.tokensUsed\<close>.\<close>

definition LlmClient_handleResponse :: "bridge \<Rightarrow> jsval \<Rightarrow> defect + bridge" where
  "LlmClient_handleResponse st response =
     (case get_prop response ''requestId'' of
        Inl thrown \<Rightarrow> Inl thrown
      | Inr requestId \<Rightarrow>
          (let st1 = emit (Log Debug ''Received sampling response'') st in
           case registry_get (pendingRequests st1) requestId of
             None \<Rightarrow> Inr (emit (Log Warning ''Received response for unknown request'') st1)
           | Some request \<Rightarrow>
               (case get_prop response ''error'' of
                  Inl thrown \<Rightarrow> Inl thrown
                | Inr err \<Rightarrow>
                    if truthy err then
                      Inr (Deferred_fail (deferred request)
                             (LlmClientError ''sample'' err)
                             (emit (Log Error ''Sampling request failed'') st1))
                    else
                      (case get_prop response ''tokensUsed'' of
                         Inl thrown \<Rightarrow> Inl thrown
                       | Inr tokensUsed \<Rightarrow>
                           (case get_prop response ''content'' of
                              Inl thrown \<Rightarrow> Inl thrown
                            | Inr content \<Rightarrow>
                                Inr (Deferred_succeed (deferred request) content
                                       (emit (Log Info ''Sampling request succeeded'') st1)))))))"

text \<open>The two bridge instances of the repository.\<close>

datatype service = McpBridgeService | LlmClientService

fun handleResponse :: "service \<Rightarrow> bridge \<Rightarrow> jsval \<Rightarrow> defect + bridge" where
  "handleResponse McpBridgeService = McpBridge_handleResponse"
| "handleResponse LlmClientService = LlmClient_handleResponse"

section \<open>Publishing\<close>

text \<open>
  \<^verbatim>\<open>DaprService.publishEvent\<close>: \<^verbatim>\<open>Effect.tryPromise\<close> around
  \<^verbatim>\<open>await client.pubsub.publish(...)\<close>. The environment decides whether that promise
  resolves (\<open>ok\<close>) or rejects; only a rejection reaches the \<^verbatim>\<open>catch\<close>. The value the
  promise resolves to is not read. The version of \<^verbatim>\<open>ai-svc\<close> fails with
  \<^verbatim>\<open>new DaprError("publishEvent", error)\<close>, the version of \<^verbatim>\<open>readme-mcp\<close> with
  \<^verbatim>\<open>new DaprError({ operation: "publishEvent", message: ... })\<close>.
\<close>

definition publishEvent_ai_svc ::
  "bool \<Rightarrow> string \<Rightarrow> string \<Rightarrow> jsval \<Rightarrow> bridge \<Rightarrow> error option \<times> bridge" where
  "publishEvent_ai_svc ok pubsubName topicName data st =
     (let st1 = emit (Log Debug (''Publishing event to '' @ pubsubName @ ''/'' @ topicName)) st;
          st2 = emit (Publish pubsubName topicName data) st1
      in if ok then
           (None, emit (Log Info (''Event published successfully to '' @ pubsubName @ ''/''
                                    @ topicName)) st2)
         else (Some (DaprError ''publishEvent'' ''Dapr operation 'publishEvent' failed''), st2))"

definition publishEvent_readme_mcp ::
  "bool \<Rightarrow> string \<Rightarrow> string \<Rightarrow> jsval \<Rightarrow> bridge \<Rightarrow> error option \<times> bridge" where
  "publishEvent_readme_mcp ok pubsubName topicName data st =
     (let st1 = emit (Log Debug (''Publishing event to '' @ pubsubName @ ''/'' @ topicName)) st;
          st2 = emit (Publish pubsubName topicName data) st1
      in if ok then (None, emit (Log Info ''Event published successfully'') st2)
         else (Some (DaprError ''publishEvent''
                       (''Failed to publish event to '' @ pubsubName @ ''/'' @ topicName)), st2))"

section \<open>The race between the response and the timeout\<close>

text \<open>
  While a call is suspended in \<^verbatim>\<open>Effect.race(Deferred.await(deferred), timeoutArm)\<close> the
  inbound endpoint may run \<^verbatim>\<open>handleResponse\<close> any number of times, and the sleep of the
  timeout arm may elapse.
\<close>

datatype event = Deliver jsval | TimerFires

text \<open>A delivery whose handler dies with a defect leaves the bridge as it was.\<close>

definition deliver :: "service \<Rightarrow> bridge \<Rightarrow> jsval \<Rightarrow> bridge" where
  "deliver svc st response =
     (case handleResponse svc st response of Inl thrown \<Rightarrow> st | Inr st' \<Rightarrow> st')"

text \<open>
  \<^verbatim>\<open>Effect.race\<close> returns the first \<^emph>\<open>successful\<close> result and interrupts the other side.
  A side that fails does not end the race: the race goes on waiting for the other side,
  and fails only once both sides have failed, with the two causes combined, left side
  first (\<^verbatim>\<open>Effect.raceFirst\<close> is the combinator that ends with the first side to finish,
  whatever its result). So the race is in one of three phases: both sides running, the
  await side failed and the timeout arm still sleeping, or the timeout arm failed and the
  await side still waiting.
\<close>

datatype phase = Racing | AwaitFailed cause | TimerFailed cause

text \<open>
  The race of one call, with request id \<open>rid\<close> and deferred \<open>d\<close>, over the events that
  happen while it is suspended. \<open>terr\<close> is the error of the timeout arm, which deletes the
  record before it fails. The result is \<open>None\<close> when the call is still suspended after
  the last event.
\<close>

fun race ::
  "service \<Rightarrow> error \<Rightarrow> string \<Rightarrow> nat \<Rightarrow> phase \<Rightarrow> bridge \<Rightarrow> event list
     \<Rightarrow> exit option \<times> bridge" where
  "race svc terr rid d ph st [] = (None, st)"
| "race svc terr rid d Racing st (Deliver r # es) =
     (let st1 = deliver svc st r in
      case deferreds st1 d of
        None \<Rightarrow> race svc terr rid d Racing st1 es
      | Some (Inr v) \<Rightarrow> (Some (Inr v), st1)
      | Some (Inl c) \<Rightarrow> race svc terr rid d (AwaitFailed c) st1 es)"
| "race svc terr rid d Racing st (TimerFires # es) =
     race svc terr rid d (TimerFailed (Fail terr)) (registry_delete rid st) es"
| "race svc terr rid d (AwaitFailed c) st (Deliver r # es) =
     race svc terr rid d (AwaitFailed c) (deliver svc st r) es"
| "race svc terr rid d (AwaitFailed c) st (TimerFires # es) =
     (Some (Inl (Parallel c (Fail terr))), registry_delete rid st)"
| "race svc terr rid d (TimerFailed c) st (Deliver r # es) =
     (let st1 = deliver svc st r in
      case deferreds st1 d of
        None \<Rightarrow> race svc terr rid d (TimerFailed c) st1 es
      | Some (Inr v) \<Rightarrow> (Some (Inr v), st1)
      | Some (Inl c') \<Rightarrow> (Some (Inl (Parallel c' c)), st1))"
| "race svc terr rid d (TimerFailed c) st (TimerFires # es) =
     race svc terr rid d (TimerFailed c) st es"

section \<open>callTool and sample\<close>

text \<open>
  What a call takes from its environment: the two \<^verbatim>\<open>uuidv4()\<close> values, the clock, the
  answer of \<^verbatim>\<open>client.pubsub.publish\<close>, and the events during the race. The publish
  of the Dapr client reports a broker that refused or could not be reached in the value
  it resolves to (\<^verbatim>\<open>{ error }\<close>), not by rejecting: \<open>publishOk\<close> says that the promise
  resolved and \<open>publishResponse\<close> is the value it resolved to, which the code discards.
\<close>

record call_env =
  uuid :: string
  uuid2 :: string
  now :: nat
  isoNow :: string
  publishOk :: bool
  publishResponse :: jsval
  events :: "event list"

text \<open>\<^verbatim>\<open>ConfigService\<close>: \<^verbatim>\<open>getPubsubName\<close>, \<^verbatim>\<open>getTopicName\<close>, \<^verbatim>\<open>getSamplingTimeout\<close>.\<close>

record config =
  pubsubName :: string
  topicName :: string
  samplingTimeout :: nat

definition toolRequestTopic :: string where
  "toolRequestTopic = ''mcp-tool-requests''"

definition toolTimeout :: nat where
  "toolTimeout = 30000"

text \<open>
  The statements after \<^verbatim>\<open>const result = yield* Effect.race(...)\<close>, the same in both
  bridges: \<^verbatim>\<open>Ref.update(pendingRequests, map => { map.delete(requestId); return map })\<close> and
  \<^verbatim>\<open>return result\<close>. A failed \<^verbatim>\<open>yield*\<close> ends the generator, so they run only when the
  race has succeeded; a race that has not ended leaves the call suspended.
\<close>

definition cleanup_successful_request ::
  "string \<Rightarrow> exit option \<times> bridge \<Rightarrow> exit option \<times> bridge" where
  "cleanup_successful_request requestId r =
     (case r of
        (Some (Inr result), st) \<Rightarrow> (Some (Inr result), registry_delete requestId st)
      | (other, st) \<Rightarrow> (other, st))"

text \<open>\<^verbatim>\<open>McpBridgeService.callTool\<close>.\<close>

definition callTool ::
  "config \<Rightarrow> call_env \<Rightarrow> bridge \<Rightarrow> string \<Rightarrow> jsval \<Rightarrow> exit option \<times> bridge" where
  "callTool cfg env st tool args =
     (let requestId = uuid env;
          st1 = emit (Log Debug ''Creating MCP tool request'') st
      in case Deferred_make st1 of (d, st2) \<Rightarrow>
         (let st3 = registry_set requestId
                      \<lparr>deferred = d, timestamp = now env, toolName = Some tool\<rparr> st2;
              toolRequest = JObj [(''specversion'', JStr ''1.0''),
                                  (''type'', JStr ''mcp.tool.request''),
                                  (''source'', JStr ''ai-svc''),
                                  (''id'', JStr (uuid2 env)),
                                  (''data'', JObj [(''requestId'', JStr requestId),
                                                   (''tool'', JStr tool),
                                                   (''arguments'', args)])]
          in case publishEvent_ai_svc (publishOk env) (pubsubName cfg) toolRequestTopic
                    toolRequest st3 of
               (Some e, st4) \<Rightarrow> (Some (Inl (Fail e)), st4)
             | (None, st4) \<Rightarrow>
                 (let st5 = emit (Log Info ''MCP tool request published'') st4 in
                  cleanup_successful_request requestId
                    (race McpBridgeService (McpToolTimeoutError tool requestId toolTimeout)
                       requestId d Racing st5 (events env)))))"

text \<open>Decimal digits of a number, for the template string of the timeout message.\<close>

fun digits :: "nat \<Rightarrow> string" where
  "digits n = (if n < 10 then [char_of (48 + n)] else digits (n div 10) @ [char_of (48 + n mod 10)])"

declare digits.simps [simp del]

text \<open>\<^verbatim>\<open>LlmClientService.sample\<close>, with its default arguments.\<close>

definition sample ::
  "config \<Rightarrow> call_env \<Rightarrow> bridge \<Rightarrow> string \<Rightarrow> string option \<Rightarrow> rat option
     \<Rightarrow> exit option \<times> bridge" where
  "sample cfg env st prompt model_arg temperature_arg =
     (let model = (case model_arg of None \<Rightarrow> ''azure/gpt-4.1'' | Some m \<Rightarrow> m);
          temperature = (case temperature_arg of None \<Rightarrow> 7 / 10 | Some t \<Rightarrow> t);
          timeoutMs = samplingTimeout cfg;
          requestId = uuid env;
          st1 = emit (Log Debug ''Creating sampling request'') st
      in case Deferred_make st1 of (d, st2) \<Rightarrow>
         (let st3 = registry_set requestId
                      \<lparr>deferred = d, timestamp = now env, toolName = None\<rparr> st2;
              samplingRequest = JObj [(''requestId'', JStr requestId),
                                      (''prompt'', JStr prompt),
                                      (''model'', JStr model),
                                      (''temperature'', JNum temperature),
                                      (''maxTokens'', JNum 2000),
                                      (''metadata'', JObj [(''source'', JStr ''readme-mcp''),
                                                           (''timestamp'', JStr (isoNow env))])]
          in case publishEvent_readme_mcp (publishOk env) (pubsubName cfg) (topicName cfg)
                    samplingRequest st3 of
               (Some e, st4) \<Rightarrow> (Some (Inl (Fail e)), st4)
             | (None, st4) \<Rightarrow>
                 (let st5 = emit (Log Info ''Sampling request published'') st4 in
                  cleanup_successful_request requestId
                    (race LlmClientService
                       (TimeoutError ''sample'' timeoutMs
                          (''Sampling request '' @ requestId @ '' timed out after ''
                             @ digits timeoutMs @ ''ms''))
                       requestId d Racing st5 (events env)))))"

section \<open>Schemas\<close>

text \<open>
  \<^verbatim>\<open>Schema.decodeUnknown(CloudEventSchema)\<close>: an object whose \<^verbatim>\<open>specversion\<close>, \<^verbatim>\<open>type\<close>,
  \<^verbatim>\<open>source\<close> and \<^verbatim>\<open>id\<close> are strings and whose optional fields, when present, are strings;
  \<^verbatim>\<open>data\<close> is \<^verbatim>\<open>Schema.Unknown\<close>, so any value passes and a missing key reads as
  \<^verbatim>\<open>undefined\<close>. Only the fields the handlers read are kept.
\<close>

record cloud_event =
  ce_type :: string
  ce_id :: string
  ce_data :: jsval

datatype parse_error = ParseError

definition required_string :: "(string \<times> jsval) list \<Rightarrow> string \<Rightarrow> string option" where
  "required_string fs k = (case map_of fs k of Some (JStr s) \<Rightarrow> Some s | _ \<Rightarrow> None)"

definition optional_string :: "(string \<times> jsval) list \<Rightarrow> string \<Rightarrow> bool" where
  "optional_string fs k =
     (case map_of fs k of
        None \<Rightarrow> True | Some JUndefined \<Rightarrow> True | Some (JStr s) \<Rightarrow> True | _ \<Rightarrow> False)"

definition optional_number :: "(string \<times> jsval) list \<Rightarrow> string \<Rightarrow> bool" where
  "optional_number fs k =
     (case map_of fs k of
        None \<Rightarrow> True | Some JUndefined \<Rightarrow> True | Some (JNum n) \<Rightarrow> True | _ \<Rightarrow> False)"

fun decodeCloudEvent :: "jsval \<Rightarrow> parse_error + cloud_event" where
  "decodeCloudEvent (JObj fs) =
     (case (required_string fs ''specversion'', required_string fs ''type'',
            required_string fs ''source'', required_string fs ''id'') of
        (Some v, Some t, Some s, Some i) \<Rightarrow>
          if list_all (optional_string fs)
               [''time'', ''datacontenttype'', ''topic'', ''pubsubname'', ''traceid'',
                ''traceparent'', ''tracestate'']
          then Inr \<lparr>ce_type = t, ce_id = i, ce_data = field fs ''data''\<rparr>
          else Inl ParseError
      | _ \<Rightarrow> Inl ParseError)"
| "decodeCloudEvent v = Inl ParseError"

text \<open>\<^verbatim>\<open>McpToolResponseSchema\<close> and \<^verbatim>\<open>SamplingResponseSchema\<close> (the one of \<^verbatim>\<open>readme-mcp\<close>, which
  also allows \<^verbatim>\<open>finishReason\<close>): the values they accept.\<close>

fun McpToolResponseSchema :: "jsval \<Rightarrow> bool" where
  "McpToolResponseSchema (JObj fs) =
     (required_string fs ''requestId'' \<noteq> None \<and> optional_string fs ''error'')"
| "McpToolResponseSchema v = False"

fun SamplingResponseSchema :: "jsval \<Rightarrow> bool" where
  "SamplingResponseSchema (JObj fs) =
     (required_string fs ''requestId'' \<noteq> None \<and> required_string fs ''content'' \<noteq> None
      \<and> required_string fs ''model'' \<noteq> None \<and> optional_number fs ''tokensUsed''
      \<and> optional_string fs ''finishReason'' \<and> optional_string fs ''error'')"
| "SamplingResponseSchema v = False"

text \<open>A field of an envelope is present when the key is there with a value.\<close>

definition present :: "jsval \<Rightarrow> string \<Rightarrow> bool" where
  "present v k = (case get_prop v k of Inl thrown \<Rightarrow> False | Inr x \<Rightarrow> x \<noteq> JUndefined)"

section \<open>Inbound endpoints\<close>

text \<open>
  A handler is \<^verbatim>\<open>Effect.gen(...).pipe(Effect.catchAll(...))\<close> run by \<^verbatim>\<open>Runtime.runPromise\<close>:
  a failure of the body (a schema error, a failed service call) reaches the
  \<^verbatim>\<open>catchAll\<close>, which logs and answers 500; a defect ends the fibre where it is thrown and
  nothing more is sent. Log lines keep the constant part of their template.
\<close>

text \<open>\<^verbatim>\<open>app.post("/mcp-tool-events")\<close> of \<^verbatim>\<open>ai-svc\<close>.\<close>

definition ai_svc_mcp_tool_events :: "bridge \<Rightarrow> jsval \<Rightarrow> bridge" where
  "ai_svc_mcp_tool_events st body =
     (let st1 = emit (Log Info ''Received MCP tool response from Dapr pub/sub'') st;
          st2 = emit (Log Debug ''Request body'') st1
      in case decodeCloudEvent body of
           Inl e \<Rightarrow>
             emit (Respond 500) (emit (Log Error ''Error processing MCP tool response'') st2)
         | Inr decoded \<Rightarrow>
             if ce_type decoded = ''mcp.tool.response'' then
               (case McpBridge_handleResponse st2 (ce_data decoded) of
                  Inl thrown \<Rightarrow> st2
                | Inr st3 \<Rightarrow> emit (Respond 200) st3)
             else emit (Respond 200) st2)"

text \<open>\<^verbatim>\<open>app.post("/mcp-events")\<close> of \<^verbatim>\<open>readme-mcp\<close>.\<close>

definition readme_mcp_mcp_events :: "bridge \<Rightarrow> jsval \<Rightarrow> bridge" where
  "readme_mcp_mcp_events st body =
     (let st1 = emit (Log Debug ''Received MCP event'') st
      in case decodeCloudEvent body of
           Inl e \<Rightarrow> emit (Respond 500) (emit (Log Error ''Failed to process event'') st1)
         | Inr eventData \<Rightarrow>
             (let st2 = emit (Log Info ''Processing sampling response'') st1 in
              if ce_type eventData = ''mcp.sampling.response'' then
                (case LlmClient_handleResponse st2 (ce_data eventData) of
                   Inl thrown \<Rightarrow> st2
                 | Inr st3 \<Rightarrow> emit (Respond 200) st3)
              else emit (Respond 200) st2))"

text \<open>
  \<^verbatim>\<open>app.post("/ai-events")\<close> of \<^verbatim>\<open>ai-svc\<close>. The routing condition first:
  \<^verbatim>\<open>decoded.type === "agent.request"\<close>, else
  \<^verbatim>\<open>decoded.type === "sampling.request" || (decoded.data as any).requestId\<close>, where
  \<^verbatim>\<open>||\<close> reads \<^verbatim>\<open>decoded.data\<close> only when the type is not \<^verbatim>\<open>"sampling.request"\<close>.
\<close>

datatype route = AgentRequest | SamplingRequest | UnknownType

definition ai_events_route :: "cloud_event \<Rightarrow> defect + route" where
  "ai_events_route decoded =
     (if ce_type decoded = ''agent.request'' then Inr AgentRequest
      else if ce_type decoded = ''sampling.request'' then Inr SamplingRequest
      else (case get_prop (ce_data decoded) ''requestId'' of
              Inl thrown \<Rightarrow> Inl thrown
            | Inr requestId \<Rightarrow>
                if truthy requestId then Inr SamplingRequest else Inr UnknownType))"

text \<open>\<^verbatim>\<open>AgentRequestDataSchema\<close>, which \<^verbatim>\<open>messageHandler.handleMessage\<close> decodes the data
  of the event with before it invokes the agent: \<^verbatim>\<open>agentId\<close> is a string, \<^verbatim>\<open>sessionId\<close> an
  optional string, \<^verbatim>\<open>metadata\<close> an optional record; other keys are ignored.\<close>

definition optional_record :: "(string \<times> jsval) list \<Rightarrow> string \<Rightarrow> bool" where
  "optional_record fs k =
     (case map_of fs k of
        None \<Rightarrow> True | Some JUndefined \<Rightarrow> True | Some (JObj m) \<Rightarrow> True | _ \<Rightarrow> False)"

fun AgentRequestDataSchema :: "jsval \<Rightarrow> bool" where
  "AgentRequestDataSchema (JObj fs) =
     (required_string fs ''agentId'' \<noteq> None \<and> optional_string fs ''sessionId''
      \<and> optional_record fs ''metadata'')"
| "AgentRequestDataSchema v = False"

text \<open>What the collaborators of the handler answer: \<^verbatim>\<open>agentService.invokeAgent\<close>, called
  by \<^verbatim>\<open>messageHandler.handleMessage\<close>, fails or succeeds, \<^verbatim>\<open>samplingService.sample\<close> fails
  (\<open>None\<close>) or returns a response, the publish of the response fails or succeeds;
  \<open>responseUuid\<close> is the \<^verbatim>\<open>uuidv4()\<close> of the response event.\<close>

record ai_env =
  invokeAgentOk :: bool
  sampleResponse :: "jsval option"
  responseUuid :: string
  responsePublishOk :: bool

definition ai_events_failed :: "bridge \<Rightarrow> bridge" where
  "ai_events_failed st =
     emit (Respond 500)
       (emit (Log Error ''Error type'') (emit (Log Error ''Error processing AI event'') st))"

definition ai_events :: "config \<Rightarrow> ai_env \<Rightarrow> bridge \<Rightarrow> jsval \<Rightarrow> bridge" where
  "ai_events cfg env st body =
     (let st1 = emit (Log Info ''Received AI event from Dapr pub/sub'') st;
          st2 = emit (Log Debug ''Request body'') st1
      in case decodeCloudEvent body of
           Inl e \<Rightarrow> ai_events_failed st2
         | Inr decoded \<Rightarrow>
             (case ai_events_route decoded of
                Inl thrown \<Rightarrow> st2
              | Inr AgentRequest \<Rightarrow>
                  (let st3 = emit (Invoke ''messageHandler.handleMessage'') st2 in
                   if AgentRequestDataSchema (ce_data decoded) \<and> invokeAgentOk env
                   then emit (Respond 200) st3
                   else ai_events_failed st3)
              | Inr SamplingRequest \<Rightarrow>
                  (case get_prop (ce_data decoded) ''requestId'' of
                     Inl thrown \<Rightarrow> st2
                   | Inr requestId \<Rightarrow>
                       (let st3 = emit (Log Info ''Processing sampling request'') st2;
                            st4 = emit (Invoke ''samplingService.sample'') st3
                        in case sampleResponse env of
                             None \<Rightarrow> ai_events_failed st4
                           | Some response \<Rightarrow>
                               (case publishEvent_ai_svc (responsePublishOk env)
                                       (pubsubName cfg) ''ai-stream-responses''
                                       (JObj [(''specversion'', JStr ''1.0''),
                                              (''type'', JStr ''mcp.sampling.response''),
                                              (''source'', JStr ''ai-svc''),
                                              (''id'', JStr (responseUuid env)),
                                              (''data'', response)]) st4 of
                                  (Some e, st5) \<Rightarrow> ai_events_failed st5
                                | (None, st5) \<Rightarrow> emit (Respond 200) st5)))
              | Inr UnknownType \<Rightarrow>
                  emit (Respond 400) (emit (Log Warning ''Unknown event type'') st2)))"

section \<open>Observations on traces\<close>

text \<open>The actions a run adds to the trace it started with.\<close>

definition emitted :: "bridge \<Rightarrow> bridge \<Rightarrow> action list" where
  "emitted st st' = drop (length (trace st)) (trace st')"

text \<open>The HTTP statuses sent and the collaborators called, in order.\<close>

fun responses :: "action list \<Rightarrow> nat list" where
  "responses [] = []"
| "responses (Respond n # t) = n # responses t"
| "responses (a # t) = responses t"

fun invoked :: "action list \<Rightarrow> string list" where
  "invoked [] = []"
| "invoked (Invoke name # t) = name # invoked t"
| "invoked (a # t) = invoked t"

text \<open>The request id a published request carries: \<^verbatim>\<open>data.requestId\<close> of the CloudEvent
  that \<^verbatim>\<open>callTool\<close> builds, \<^verbatim>\<open>requestId\<close> of the sampling request.\<close>

definition published_requestId :: "jsval \<Rightarrow> jsval" where
  "published_requestId payload =
     (case get_prop payload ''data'' of
        Inr (JObj ds) \<Rightarrow> field ds ''requestId''
      | _ \<Rightarrow> (case get_prop payload ''requestId'' of Inr v \<Rightarrow> v | Inl thrown \<Rightarrow> JUndefined))"

text \<open>
  A trace publishes only registered requests when, reading it from the start with the
  set \<open>reg\<close> of registered ids, every publish carries an id that is registered at that
  moment.
\<close>

fun publishes_registered :: "string set \<Rightarrow> action list \<Rightarrow> bool" where
  "publishes_registered reg [] = True"
| "publishes_registered reg (RegistrySet r # t) = publishes_registered (insert r reg) t"
| "publishes_registered reg (RegistryDelete r # t) = publishes_registered (reg - {r}) t"
| "publishes_registered reg (Publish ps topic payload # t) =
     ((case published_requestId payload of JStr r \<Rightarrow> r \<in> reg | _ \<Rightarrow> False)
      \<and> publishes_registered reg t)"
| "publishes_registered reg (a # t) = publishes_registered reg t"

text \<open>How many times a trace completes the deferred \<open>d\<close>.\<close>

fun resolutions :: "nat \<Rightarrow> action list \<Rightarrow> nat" where
  "resolutions d [] = 0"
| "resolutions d (Resolve d' ex # t) = (if d' = d then 1 else 0) + resolutions d t"
| "resolutions d (a # t) = resolutions d t"

text \<open>The completions of \<open>d\<close> done so far, plus the one still possible while \<open>d\<close> is not
  completed.\<close>

definition budget :: "nat \<Rightarrow> bridge \<Rightarrow> nat" where
  "budget d st = resolutions d (trace st) + (if deferreds st d = None then 1 else 0)"

text \<open>Every record of the registry holds a deferred that was allocated.\<close>

definition wf_bridge :: "bridge \<Rightarrow> bool" where
  "wf_bridge st =
     (\<forall>rid pr. pendingRequests st rid = Some pr \<longrightarrow> deferred pr < nextDeferred st)"

section \<open>Example inputs\<close>

definition init :: bridge where
  "init = \<lparr>pendingRequests = Map.empty, deferreds = Map.empty, nextDeferred = 0, trace = []\<rparr>"

definition cfg0 :: config where
  "cfg0 = \<lparr>pubsubName = ''ai-pubsub'', topicName = ''ai-stream'', samplingTimeout = 5000\<rparr>"

definition env0 :: "bool \<Rightarrow> event list \<Rightarrow> call_env" where
  "env0 ok es = \<lparr>uuid = ''r1'', uuid2 = ''e1'', now = 17, isoNow = ''2025-01-01T00:00:00Z'',
                 publishOk = ok, publishResponse = JObj [], events = es\<rparr>"

text \<open>A bridge with one pending call \<open>r1\<close>, waiting on deferred 0.\<close>

definition pending1 :: bridge where
  "pending1 = \<lparr>pendingRequests = [''r1'' \<mapsto> \<lparr>deferred = 0, timestamp = 17,
                                           toolName = Some ''validate-readme''\<rparr>],
               deferreds = Map.empty, nextDeferred = 1, trace = []\<rparr>"

definition ok_response :: "string \<Rightarrow> jsval" where
  "ok_response rid = JObj [(''requestId'', JStr rid),
                           (''result'', JObj [(''valid'', JBool True), (''score'', JNum 85)]),
                           (''content'', JStr ''text''), (''model'', JStr ''azure/gpt-4.1'')]"

definition error_response :: "string \<Rightarrow> jsval" where
  "error_response rid = JObj [(''requestId'', JStr rid), (''error'', JStr ''invalid arguments''),
                              (''content'', JStr []), (''model'', JStr ''azure/gpt-4.1'')]"

definition cloudEvent :: "string \<Rightarrow> jsval \<Rightarrow> jsval" where
  "cloudEvent t d = JObj [(''specversion'', JStr ''1.0''), (''type'', JStr t),
                          (''source'', JStr ''test''), (''id'', JStr ''e9''), (''data'', d)]"

text \<open>The data of an agent request that also carries a \<^verbatim>\<open>requestId\<close>.\<close>

definition agent_request_with_id :: jsval where
  "agent_request_with_id = JObj [(''agentId'', JStr ''default''), (''input'', JStr ''hello''),
                                 (''requestId'', JStr ''r1'')]"

definition aenv0 :: ai_env where
  "aenv0 = \<lparr>invokeAgentOk = True,
             sampleResponse = Some (JObj [(''requestId'', JStr ''r1''), (''content'', JStr ''text''),
                                          (''model'', JStr ''azure/gpt-4.1'')]),
             responseUuid = ''e2'', responsePublishOk = True\<rparr>"

section \<open>Basic facts about the primitives\<close>

lemma emit_fields [simp]:
  "pendingRequests (emit a st) = pendingRequests st"
  "deferreds (emit a st) = deferreds st"
  "nextDeferred (emit a st) = nextDeferred st"
  "trace (emit a st) = trace st @ [a]"
  by (simp_all add: emit_def)

lemma Deferred_done_fields [simp]:
  "pendingRequests (Deferred_done d ex st) = pendingRequests st"
  "nextDeferred (Deferred_done d ex st) = nextDeferred st"
  by (simp_all add: Deferred_done_def split: option.split)

lemma Deferred_done_deferreds:
  "deferreds (Deferred_done d ex st) =
     (if deferreds st d = None then (deferreds st)(d \<mapsto> ex) else deferreds st)"
  by (simp add: Deferred_done_def split: option.split)

lemma Deferred_done_trace:
  "trace (Deferred_done d ex st) =
     (if deferreds st d = None then trace st @ [Resolve d ex] else trace st)"
  by (simp add: Deferred_done_def split: option.split)

lemma registry_delete_fields [simp]:
  "pendingRequests (registry_delete rid st) = (pendingRequests st)(rid := None)"
  "deferreds (registry_delete rid st) = deferreds st"
  "nextDeferred (registry_delete rid st) = nextDeferred st"
  "trace (registry_delete rid st) = trace st @ [RegistryDelete rid]"
  by (simp_all add: registry_delete_def)

lemma registry_set_fields [simp]:
  "pendingRequests (registry_set rid pr st) = (pendingRequests st)(rid \<mapsto> pr)"
  "deferreds (registry_set rid pr st) = deferreds st"
  "nextDeferred (registry_set rid pr st) = nextDeferred st"
  "trace (registry_set rid pr st) = trace st @ [RegistrySet rid]"
  by (simp_all add: registry_set_def)

section \<open>Responses for unknown requests\<close>

text \<open>
  Claim C6. For every response envelope (an object) whose \<^verbatim>\<open>requestId\<close> is not a key of the
  registry, \<^verbatim>\<open>handleResponse\<close> of either bridge returns normally, and the bridge it leaves
  differs from the one it found only by two log lines, the second at warning level: no
  record is changed and no deferred is completed.
\<close>

theorem unknown_response_ignored:
  assumes "registry_get (pendingRequests st) (field fs ''requestId'') = None"
  shows "McpBridge_handleResponse st (JObj fs) =
           Inr (st\<lparr>trace := trace st @ [Log Debug ''Received MCP tool response'',
                                        Log Warning ''Received response for unknown request'']\<rparr>)
       \<and> LlmClient_handleResponse st (JObj fs) =
           Inr (st\<lparr>trace := trace st @ [Log Debug ''Received sampling response'',
                                        Log Warning ''Received response for unknown request'']\<rparr>)"
  using assms by (simp add: McpBridge_handleResponse_def LlmClient_handleResponse_def emit_def)

theorem unknown_response_ignored_witness:
  "registry_get (pendingRequests pending1)
     (field [(''requestId'', JStr ''r2''), (''result'', JNum 1)] ''requestId'') = None
   \<and> McpBridge_handleResponse pending1 (JObj [(''requestId'', JStr ''r2''), (''result'', JNum 1)]) =
       Inr (pending1\<lparr>trace := [Log Debug ''Received MCP tool response'',
                                 Log Warning ''Received response for unknown request'']\<rparr>)
   \<and> LlmClient_handleResponse pending1 (JObj [(''requestId'', JStr ''r2''), (''result'', JNum 1)]) =
       Inr (pending1\<lparr>trace := [Log Debug ''Received sampling response'',
                                 Log Warning ''Received response for unknown request'']\<rparr>)"
proof -
  have h: "registry_get (pendingRequests pending1)
             (field [(''requestId'', JStr ''r2''), (''result'', JNum 1)] ''requestId'') = None"
    by (simp add: pending1_def field_def)
  have t: "trace pending1 = []" by (simp add: pending1_def)
  show ?thesis using h unknown_response_ignored [OF h] by (simp add: t)
qed

lemma resolutions_append [simp]:
  "resolutions d (xs @ ys) = resolutions d xs + resolutions d ys"
  by (induction d xs rule: resolutions.induct) auto

lemma emitted_eq: "trace st' = trace st @ X \<Longrightarrow> emitted st st' = X"
  by (simp add: emitted_def)

section \<open>What handleResponse changes\<close>

lemma handleResponse_registry:
  "handleResponse svc st r = Inr st' \<Longrightarrow> pendingRequests st' = pendingRequests st"
  by (cases svc)
     (auto simp: McpBridge_handleResponse_def LlmClient_handleResponse_def Let_def
                 Deferred_fail_def Deferred_succeed_def split: option.splits sum.splits if_splits)

lemma deliver_registry [simp]: "pendingRequests (deliver svc st r) = pendingRequests st"
  by (auto simp: deliver_def handleResponse_registry split: sum.split)

lemma handleResponse_stable:
  "handleResponse svc st r = Inr st' \<Longrightarrow> deferreds st d = Some x \<Longrightarrow> deferreds st' d = Some x"
  by (cases svc)
     (auto simp: McpBridge_handleResponse_def LlmClient_handleResponse_def Let_def
                 Deferred_fail_def Deferred_succeed_def Deferred_done_deferreds
           split: option.splits sum.splits if_splits)

lemma deliver_stable: "deferreds st d = Some x \<Longrightarrow> deferreds (deliver svc st r) d = Some x"
  by (auto simp: deliver_def handleResponse_stable split: sum.split)

lemma race_stable:
  "deferreds st d = Some x \<Longrightarrow> deferreds (snd (race svc terr rid d' ph st es)) d = Some x"
  by (induction svc terr rid d' ph st es rule: race.induct)
     (auto simp: Let_def deliver_stable split: option.split sum.split)

text \<open>No step of the race changes the budget of a deferred: a completion is recorded in
  the trace exactly when it uses up the one completion the deferred had left.\<close>

lemma budget_emit_log [simp]: "budget d (emit (Log l m) st) = budget d st"
  by (simp add: budget_def)

lemma budget_Deferred_done: "budget d (Deferred_done d' ex st) = budget d st"
  by (auto simp: budget_def Deferred_done_def split: option.split)

lemma budget_handleResponse:
  "handleResponse svc st r = Inr st' \<Longrightarrow> budget d st' = budget d st"
  by (cases svc)
     (auto simp: McpBridge_handleResponse_def LlmClient_handleResponse_def Let_def
                 Deferred_fail_def Deferred_succeed_def budget_Deferred_done
           split: option.splits sum.splits if_splits)

lemma budget_deliver [simp]: "budget d (deliver svc st r) = budget d st"
  by (auto simp: deliver_def budget_handleResponse split: sum.split)

lemma budget_registry_delete [simp]: "budget d (registry_delete rid st) = budget d st"
  by (simp add: budget_def)

lemma budget_race: "budget d (snd (race svc terr rid d' ph st es)) = budget d st"
  by (induction svc terr rid d' ph st es rule: race.induct)
     (auto simp: Let_def split: option.split sum.split)

lemma race_only_timer:
  "set es \<subseteq> {TimerFires} \<Longrightarrow> deferreds (snd (race svc terr rid d ph st es)) = deferreds st"
  by (induction svc terr rid d ph st es rule: race.induct) auto

lemma late_delivery:
  "field fs ''requestId'' = JStr rid \<Longrightarrow>
   handleResponse svc (registry_delete rid st) (JObj fs) =
     Inr (emit (Log Warning ''Received response for unknown request'')
            (emit (Log Debug (case svc of McpBridgeService \<Rightarrow> ''Received MCP tool response''
                                        | LlmClientService \<Rightarrow> ''Received sampling response''))
               (registry_delete rid st)))"
  by (cases svc) (simp_all add: McpBridge_handleResponse_def LlmClient_handleResponse_def)

section \<open>One completion per deferred\<close>

text \<open>
  The waiter of a call is its deferred. Over any sequence of deliveries and timer
  events, in any phase of the race, a deferred is completed at most once: the trace gains
  at most one completion of a deferred that was not completed and none of one that was,
  and a completed deferred keeps its value. The timeout arm never completes a deferred: a
  race in which only the timer fires leaves all deferreds as they were. A response that
  arrives for a request after the timeout arm has deleted its record returns normally and
  adds two log lines, nothing else.
\<close>

lemma deferred_completed_at_most_once:
  "resolutions d (trace (snd (race svc terr rid d' ph st es)))
     \<le> resolutions d (trace st) + (if deferreds st d = None then 1 else 0)
   \<and> (deferreds st d = Some x \<longrightarrow> deferreds (snd (race svc terr rid d' ph st es)) d = Some x)
   \<and> (set es \<subseteq> {TimerFires} \<longrightarrow> deferreds (snd (race svc terr rid d' ph st es)) = deferreds st)
   \<and> (field fs ''requestId'' = JStr rid \<longrightarrow>
        McpBridge_handleResponse (registry_delete rid st) (JObj fs) =
          Inr (emit (Log Warning ''Received response for unknown request'')
                 (emit (Log Debug ''Received MCP tool response'') (registry_delete rid st)))
      \<and> LlmClient_handleResponse (registry_delete rid st) (JObj fs) =
          Inr (emit (Log Warning ''Received response for unknown request'')
                 (emit (Log Debug ''Received sampling response'') (registry_delete rid st))))"
proof -
  have "resolutions d (trace (snd (race svc terr rid d' ph st es)))
          \<le> budget d (snd (race svc terr rid d' ph st es))"
    by (simp add: budget_def)
  also have "\<dots> = budget d st"
    by (rule budget_race)
  finally have a: "resolutions d (trace (snd (race svc terr rid d' ph st es)))
     \<le> resolutions d (trace st) + (if deferreds st d = None then 1 else 0)"
    unfolding budget_def .
  show ?thesis
    using a race_stable [of st d x svc terr rid d' ph es]
      race_only_timer [of es svc terr rid d' ph st]
      late_delivery [of fs rid McpBridgeService st] late_delivery [of fs rid LlmClientService st]
    by simp
qed

section \<open>The two fields of a response envelope\<close>

text \<open>
  Claim C8, as stated, fails. \<^verbatim>\<open>McpToolResponseSchema\<close> accepts an envelope with neither a
  result nor an error, and \<^verbatim>\<open>handleResponse\<close> resolves the waiter of such an envelope with
  the success value \<^verbatim>\<open>undefined\<close>; \<^verbatim>\<open>SamplingResponseSchema\<close> requires \<^verbatim>\<open>content\<close> always,
  so an error response carries both fields.
\<close>

theorem response_exactly_one_counterexample:
  "McpToolResponseSchema (JObj [(''requestId'', JStr ''r1'')])
   \<and> \<not> present (JObj [(''requestId'', JStr ''r1'')]) ''result''
   \<and> \<not> present (JObj [(''requestId'', JStr ''r1'')]) ''error''
   \<and> McpBridge_handleResponse pending1 (JObj [(''requestId'', JStr ''r1'')]) =
       Inr (pending1\<lparr>deferreds := [0 \<mapsto> Inr JUndefined],
                     trace := [Log Debug ''Received MCP tool response'',
                               Log Info ''MCP tool request succeeded'',
                               Resolve 0 (Inr JUndefined)]\<rparr>)
   \<and> SamplingResponseSchema (error_response ''r1'')
   \<and> present (error_response ''r1'') ''content''
   \<and> present (error_response ''r1'') ''error''"
  by (simp add: required_string_def optional_string_def optional_number_def present_def field_def
        McpBridge_handleResponse_def pending1_def error_response_def
        Deferred_succeed_def Deferred_done_def emit_def)

text \<open>
  Claim C8, amended. An envelope need not carry exactly one of the two fields, and
  \<^verbatim>\<open>handleResponse\<close> decides by the error field alone. For every envelope whose
  \<^verbatim>\<open>requestId\<close> is pending with an uncompleted deferred: when the error field is truthy
  the deferred is failed with an error wrapping it, whatever the success field holds;
  otherwise the deferred succeeds with the success field (\<^verbatim>\<open>result\<close>, or \<^verbatim>\<open>content\<close> for a
  sampling response), which is \<^verbatim>\<open>undefined\<close> when the field is absent.
\<close>

theorem handleResponse_decides_by_error:
  assumes "field fs ''requestId'' = JStr rid" and "pendingRequests st rid = Some pr"
    and "deferreds st (deferred pr) = None"
  shows "(\<exists>st'. McpBridge_handleResponse st (JObj fs) = Inr st'
            \<and> deferreds st' = (deferreds st)(deferred pr \<mapsto>
                 (if truthy (field fs ''error'')
                  then Inl (Fail (McpToolError (tool_name pr) (field fs ''error'')))
                  else Inr (field fs ''result''))))
       \<and> (\<exists>st'. LlmClient_handleResponse st (JObj fs) = Inr st'
            \<and> deferreds st' = (deferreds st)(deferred pr \<mapsto>
                 (if truthy (field fs ''error'')
                  then Inl (Fail (LlmClientError ''sample'' (field fs ''error'')))
                  else Inr (field fs ''content''))))"
  using assms
  by (auto simp: McpBridge_handleResponse_def LlmClient_handleResponse_def Let_def
                 Deferred_fail_def Deferred_succeed_def Deferred_done_deferreds)

theorem handleResponse_decides_by_error_witness:
  "field [(''requestId'', JStr ''r1''), (''result'', JNum 1), (''error'', JStr ''bad'')]
     ''requestId'' = JStr ''r1''
   \<and> pendingRequests pending1 ''r1''
       = Some \<lparr>deferred = 0, timestamp = 17, toolName = Some ''validate-readme''\<rparr>
   \<and> deferreds pending1 0 = None
   \<and> (\<exists>st'. McpBridge_handleResponse pending1
               (JObj [(''requestId'', JStr ''r1''), (''result'', JNum 1), (''error'', JStr ''bad'')])
             = Inr st'
           \<and> deferreds st' 0 = Some (Inl (Fail (McpToolError ''validate-readme'' (JStr ''bad'')))))"
proof -
  have f: "field [(''requestId'', JStr ''r1''), (''result'', JNum 1), (''error'', JStr ''bad'')]
             ''requestId'' = JStr ''r1''"
    by (simp add: field_def)
  have p: "pendingRequests pending1 ''r1''
             = Some \<lparr>deferred = 0, timestamp = 17, toolName = Some ''validate-readme''\<rparr>"
    by (simp add: pending1_def)
  have d: "deferreds pending1 (deferred \<lparr>deferred = 0, timestamp = 17,
                                           toolName = Some ''validate-readme''\<rparr>) = None"
    by (simp add: pending1_def)
  from handleResponse_decides_by_error [OF f p d] f p d show ?thesis
    by (auto simp: field_def tool_name_def)
qed

section \<open>The registry during the race\<close>

lemma race_registry:
  "(\<forall>c. ph = TimerFailed c \<longrightarrow> pendingRequests st rid = None) \<Longrightarrow>
   (\<forall>v. fst (race svc terr rid d ph st es) \<noteq> Some (Inr v)) \<Longrightarrow>
   fst (race svc terr rid d ph st es) \<noteq> None \<or> TimerFires \<in> set es \<or> (\<exists>c. ph = TimerFailed c) \<Longrightarrow>
   pendingRequests (snd (race svc terr rid d ph st es)) rid = None"
proof (induction es arbitrary: ph st)
  case Nil
  then show ?case by auto
next
  case (Cons e es)
  show ?case
  proof (cases e)
    case (Deliver r)
    show ?thesis
    proof (cases ph)
      case Racing
      show ?thesis
        using Cons.IH [of Racing "deliver svc st r"]
              Cons.IH [of "AwaitFailed c" "deliver svc st r" for c] Cons.prems
        by (auto simp: Deliver Racing Let_def split: option.splits sum.splits)
    next
      case (AwaitFailed c)
      show ?thesis
        using Cons.IH [of "AwaitFailed c" "deliver svc st r"] Cons.prems
        by (auto simp: Deliver AwaitFailed)
    next
      case (TimerFailed c)
      show ?thesis
        using Cons.IH [of "TimerFailed c" "deliver svc st r"] Cons.prems
        by (auto simp: Deliver TimerFailed Let_def split: option.splits sum.splits)
    qed
  next
    case TimerFires
    show ?thesis
    proof (cases ph)
      case Racing
      show ?thesis
        using Cons.IH [of "TimerFailed (Fail terr)" "registry_delete rid st"] Cons.prems
        by (auto simp: TimerFires Racing)
    next
      case (AwaitFailed c)
      show ?thesis using Cons.prems by (simp add: TimerFires AwaitFailed)
    next
      case (TimerFailed c)
      show ?thesis
        using Cons.IH [of "TimerFailed c" st] Cons.prems
        by (auto simp: TimerFires TimerFailed)
    qed
  qed
qed

lemma registry_get_Some:
  "registry_get m v = Some request \<Longrightarrow> \<exists>k. m k = Some request"
  by (cases v) auto

lemma Deferred_done_other:
  "d' \<noteq> d \<Longrightarrow> deferreds (Deferred_done d' ex st) d = deferreds st d"
  by (simp add: Deferred_done_deferreds)

lemma handleResponse_untouched:
  assumes "handleResponse svc st r = Inr st'"
    and "\<forall>rid' pr. pendingRequests st rid' = Some pr \<longrightarrow> deferred pr \<noteq> d"
  shows "deferreds st' d = deferreds st d"
proof -
  have other: "deferred request \<noteq> d"
    if "registry_get (pendingRequests st) v = Some request" for v request
    using registry_get_Some [OF that] assms(2) by blast
  show ?thesis
    using assms(1) other
    by (cases svc)
       (auto simp: McpBridge_handleResponse_def LlmClient_handleResponse_def Let_def
                   Deferred_fail_def Deferred_succeed_def Deferred_done_other
             split: option.splits sum.splits if_splits)
qed

lemma deliver_untouched:
  "\<forall>rid' pr. pendingRequests st rid' = Some pr \<longrightarrow> deferred pr \<noteq> d \<Longrightarrow>
   deferreds (deliver svc st r) d = deferreds st d"
  by (auto simp: deliver_def handleResponse_untouched split: sum.split)

lemma race_hangs:
  "deferreds st d = None \<Longrightarrow>
   \<forall>rid' pr. pendingRequests st rid' = Some pr \<longrightarrow> deferred pr \<noteq> d \<Longrightarrow>
   fst (race svc terr rid d (TimerFailed c) st es) = None"
proof (induction es arbitrary: st)
  case Nil
  then show ?case by simp
next
  case (Cons e es)
  show ?case
  proof (cases e)
    case (Deliver r)
    have "deferreds (deliver svc st r) d = None"
      using Cons.prems by (simp add: deliver_untouched)
    moreover have "\<forall>rid' pr. pendingRequests (deliver svc st r) rid' = Some pr \<longrightarrow> deferred pr \<noteq> d"
      using Cons.prems by simp
    ultimately show ?thesis
      using Deliver Cons.IH [of "deliver svc st r"] by (simp add: Let_def)
  next
    case TimerFires
    then show ?thesis using Cons by simp
  qed
qed


lemma race_registry_pair:
  "race svc terr rid d Racing st es = (res, st') \<Longrightarrow> \<forall>v. res \<noteq> Some (Inr v) \<Longrightarrow>
   res \<noteq> None \<or> TimerFires \<in> set es \<Longrightarrow> pendingRequests st' rid = None"
  using race_registry [of Racing st rid svc terr d es] by simp

section \<open>A call up to its race\<close>

lemma cleanup_fst:
  "fst (cleanup_successful_request rid r) = fst r"
  by (auto simp: cleanup_successful_request_def split: prod.split option.split sum.split)

lemma cleanup_snd:
  "snd (cleanup_successful_request rid r) =
     (case fst r of Some (Inr v) \<Rightarrow> registry_delete rid (snd r) | _ \<Rightarrow> snd r)"
  by (auto simp: cleanup_successful_request_def split: prod.split option.split sum.split)

lemma callTool_published:
  assumes "publishOk env"
  shows "\<exists>st5. callTool cfg env st tool args =
                 cleanup_successful_request (uuid env)
                   (race McpBridgeService (McpToolTimeoutError tool (uuid env) toolTimeout)
                      (uuid env) (nextDeferred st) Racing st5 (events env))
             \<and> pendingRequests st5 = (pendingRequests st)(uuid env \<mapsto>
                  \<lparr>deferred = nextDeferred st, timestamp = now env, toolName = Some tool\<rparr>)
             \<and> deferreds st5 = (deferreds st)(nextDeferred st := None)
             \<and> nextDeferred st5 = Suc (nextDeferred st)
             \<and> (\<exists>payload. published_requestId payload = JStr (uuid env)
                  \<and> trace st5 = trace st @
                  [Log Debug ''Creating MCP tool request'', RegistrySet (uuid env),
                   Log Debug (''Publishing event to '' @ pubsubName cfg @ ''/'' @ toolRequestTopic),
                   Publish (pubsubName cfg) toolRequestTopic payload,
                   Log Info (''Event published successfully to '' @ pubsubName cfg @ ''/''
                               @ toolRequestTopic),
                   Log Info ''MCP tool request published''])"
  unfolding callTool_def Deferred_make_def publishEvent_ai_svc_def Let_def
  apply (simp add: assms)
  apply (rule exI, intro conjI, rule refl)
  apply (simp_all add: published_requestId_def field_def)
  done


lemma sample_published:
  assumes "publishOk env"
  shows "\<exists>st5. sample cfg env st prompt model temperature =
                 cleanup_successful_request (uuid env)
                   (race LlmClientService
                      (TimeoutError ''sample'' (samplingTimeout cfg)
                         (''Sampling request '' @ uuid env @ '' timed out after ''
                            @ digits (samplingTimeout cfg) @ ''ms''))
                      (uuid env) (nextDeferred st) Racing st5 (events env))
             \<and> pendingRequests st5 = (pendingRequests st)(uuid env \<mapsto>
                  \<lparr>deferred = nextDeferred st, timestamp = now env, toolName = None\<rparr>)
             \<and> deferreds st5 = (deferreds st)(nextDeferred st := None)
             \<and> nextDeferred st5 = Suc (nextDeferred st)
             \<and> (\<exists>payload. published_requestId payload = JStr (uuid env)
                  \<and> trace st5 = trace st @
                  [Log Debug ''Creating sampling request'', RegistrySet (uuid env),
                   Log Debug (''Publishing event to '' @ pubsubName cfg @ ''/'' @ topicName cfg),
                   Publish (pubsubName cfg) (topicName cfg) payload,
                   Log Info ''Event published successfully'',
                   Log Info ''Sampling request published''])"
  unfolding sample_def Deferred_make_def publishEvent_readme_mcp_def Let_def
  apply (simp add: assms)
  apply (rule exI, intro conjI, rule refl)
  apply (simp_all add: published_requestId_def field_def)
  done

lemma after_race_registry:
  assumes "fst (cleanup_successful_request rid (race svc terr rid d Racing st es)) \<noteq> None
             \<or> TimerFires \<in> set es"
  shows "pendingRequests (snd (cleanup_successful_request rid (race svc terr rid d Racing st es)))
           rid = None"
proof (cases "\<exists>v. fst (race svc terr rid d Racing st es) = Some (Inr v)")
  case True
  then show ?thesis by (auto simp: cleanup_snd)
next
  case False
  then have "snd (cleanup_successful_request rid (race svc terr rid d Racing st es))
               = snd (race svc terr rid d Racing st es)"
    by (auto simp: cleanup_snd split: option.split sum.split)
  moreover have "pendingRequests (snd (race svc terr rid d Racing st es)) rid = None"
    using race_registry [of Racing st rid svc terr d es] False assms by (simp add: cleanup_fst)
  ultimately show ?thesis by simp
qed

section \<open>handleResponse does not remove the record\<close>












section \<open>No record is left after a resolution\<close>

text \<open>
  Claim C3. When the request was published, the registry no longer holds the request
  id of the call once the call has completed, with a result or with a failure, and also
  once the timer has fired: the timeout arm deletes the record, and so does the cleanup
  after a race that succeeded. This holds for \<^verbatim>\<open>callTool\<close> and for \<^verbatim>\<open>sample\<close>, from every
  bridge and over every sequence of deliveries and timer events.
\<close>

theorem no_registry_leak_after_resolution:
  assumes "publishOk env"
  shows "(fst (callTool cfg env st tool args) \<noteq> None \<or> TimerFires \<in> set (events env)
            \<longrightarrow> pendingRequests (snd (callTool cfg env st tool args)) (uuid env) = None)
       \<and> (fst (sample cfg env st prompt model temperature) \<noteq> None
              \<or> TimerFires \<in> set (events env)
            \<longrightarrow> pendingRequests (snd (sample cfg env st prompt model temperature)) (uuid env)
                  = None)"
proof -
  obtain st5 where "callTool cfg env st tool args =
       cleanup_successful_request (uuid env)
         (race McpBridgeService (McpToolTimeoutError tool (uuid env) toolTimeout)
            (uuid env) (nextDeferred st) Racing st5 (events env))"
    using callTool_published [OF assms] by blast
  then have a: "fst (callTool cfg env st tool args) \<noteq> None \<or> TimerFires \<in> set (events env)
            \<longrightarrow> pendingRequests (snd (callTool cfg env st tool args)) (uuid env) = None"
    using after_race_registry by auto
  obtain st5' where "sample cfg env st prompt model temperature =
       cleanup_successful_request (uuid env)
         (race LlmClientService
            (TimeoutError ''sample'' (samplingTimeout cfg)
               (''Sampling request '' @ uuid env @ '' timed out after ''
                  @ digits (samplingTimeout cfg) @ ''ms''))
            (uuid env) (nextDeferred st) Racing st5' (events env))"
    using sample_published [OF assms] by blast
  then have b: "fst (sample cfg env st prompt model temperature) \<noteq> None
              \<or> TimerFires \<in> set (events env)
            \<longrightarrow> pendingRequests (snd (sample cfg env st prompt model temperature)) (uuid env)
                  = None"
    using after_race_registry by auto
  from a b show ?thesis by blast
qed


theorem no_registry_leak_after_resolution_witness:
  "publishOk (env0 True [Deliver (error_response ''r1''), TimerFires])
   \<and> TimerFires \<in> set (events (env0 True [Deliver (error_response ''r1''), TimerFires]))
   \<and> pendingRequests (snd (callTool cfg0 (env0 True [Deliver (error_response ''r1''), TimerFires])
                            init ''validate-readme'' (JObj []))) ''r1'' = None
   \<and> pendingRequests (snd (sample cfg0 (env0 True [Deliver (error_response ''r1''), TimerFires])
                            init ''hello'' None None)) ''r1'' = None"
  using no_registry_leak_after_resolution
          [where env = "env0 True [Deliver (error_response ''r1''), TimerFires]" and cfg = cfg0
             and st = init and tool = "''validate-readme''" and args = "JObj []"
             and prompt = "''hello''" and model = None and temperature = None]
  by (simp add: env0_def)

section \<open>The timeout error does not reach the caller\<close>

lemma race_timer_first_hangs:
  assumes "wf_bridge st"
    and "pendingRequests st5 = (pendingRequests st)(rid \<mapsto> pr)"
    and "deferreds st5 = (deferreds st)(nextDeferred st := None)"
  shows "fst (race svc terr rid (nextDeferred st) Racing st5 (TimerFires # es)) = None"
proof -
  have old: "deferred pr' \<noteq> nextDeferred st"
    if "pendingRequests st rid' = Some pr'" for rid' pr'
    using assms(1) that unfolding wf_bridge_def by fastforce
  have "deferreds (registry_delete rid st5) (nextDeferred st) = None"
    using assms(3) by simp
  moreover have "\<forall>rid' pr'. pendingRequests (registry_delete rid st5) rid' = Some pr'
                    \<longrightarrow> deferred pr' \<noteq> nextDeferred st"
    using old by (auto simp: assms(2) split: if_splits)
  ultimately show ?thesis
    by (simp add: race_hangs)
qed

text \<open>
  Claim C5 at its failing input. When the timer fires before any response, the timeout
  arm deletes the record and fails with the timeout error, but \<^verbatim>\<open>Effect.race\<close> then waits
  for \<^verbatim>\<open>Deferred.await\<close>, and no later delivery can complete the deferred, its record
  being gone: whatever happens afterwards, \<^verbatim>\<open>callTool\<close> and \<^verbatim>\<open>sample\<close> stay suspended and
  yield nothing, from every well-formed bridge.
\<close>

theorem timeout_error_never_surfaces:
  assumes "wf_bridge st" and "publishOk env" and "events env = TimerFires # es"
  shows "fst (callTool cfg env st tool args) = None
       \<and> pendingRequests (snd (callTool cfg env st tool args)) (uuid env) = None
       \<and> fst (sample cfg env st prompt model temperature) = None
       \<and> pendingRequests (snd (sample cfg env st prompt model temperature)) (uuid env) = None"
proof -
  have t: "TimerFires \<in> set (events env)"
    using assms(3) by simp
  obtain st5 where c: "callTool cfg env st tool args =
       cleanup_successful_request (uuid env)
         (race McpBridgeService (McpToolTimeoutError tool (uuid env) toolTimeout)
            (uuid env) (nextDeferred st) Racing st5 (events env))"
    and "pendingRequests st5 = (pendingRequests st)(uuid env \<mapsto>
           \<lparr>deferred = nextDeferred st, timestamp = now env, toolName = Some tool\<rparr>)"
    and "deferreds st5 = (deferreds st)(nextDeferred st := None)"
    using callTool_published [OF assms(2)] by blast
  then have a: "fst (callTool cfg env st tool args) = None"
    using race_timer_first_hangs [OF assms(1)] assms(3) by (simp add: cleanup_fst)
  have a': "pendingRequests (snd (callTool cfg env st tool args)) (uuid env) = None"
    using after_race_registry t by (simp add: c)
  obtain st5' where c': "sample cfg env st prompt model temperature =
       cleanup_successful_request (uuid env)
         (race LlmClientService
            (TimeoutError ''sample'' (samplingTimeout cfg)
               (''Sampling request '' @ uuid env @ '' timed out after ''
                  @ digits (samplingTimeout cfg) @ ''ms''))
            (uuid env) (nextDeferred st) Racing st5' (events env))"
    and "pendingRequests st5' = (pendingRequests st)(uuid env \<mapsto>
           \<lparr>deferred = nextDeferred st, timestamp = now env, toolName = None\<rparr>)"
    and "deferreds st5' = (deferreds st)(nextDeferred st := None)"
    using sample_published [OF assms(2)] by blast
  then have b: "fst (sample cfg env st prompt model temperature) = None"
    using race_timer_first_hangs [OF assms(1)] assms(3) by (simp add: cleanup_fst)
  have b': "pendingRequests (snd (sample cfg env st prompt model temperature)) (uuid env) = None"
    using after_race_registry t by (simp add: c')
  from a a' b b' show ?thesis
    by blast
qed

theorem timeout_error_never_surfaces_witness:
  "wf_bridge init \<and> publishOk (env0 True [TimerFires, Deliver (ok_response ''r1'')])
   \<and> events (env0 True [TimerFires, Deliver (ok_response ''r1'')])
       = TimerFires # [Deliver (ok_response ''r1'')]
   \<and> fst (callTool cfg0 (env0 True [TimerFires, Deliver (ok_response ''r1'')]) init
            ''validate-readme'' (JObj [])) = None
   \<and> fst (sample cfg0 (env0 True [TimerFires, Deliver (ok_response ''r1'')]) init
            ''hello'' None None) = None"
proof -
  have w: "wf_bridge init" by (simp add: wf_bridge_def init_def)
  have p: "publishOk (env0 True [TimerFires, Deliver (ok_response ''r1'')])"
    by (simp add: env0_def)
  have e: "events (env0 True [TimerFires, Deliver (ok_response ''r1'')])
             = TimerFires # [Deliver (ok_response ''r1'')]"
    by (simp add: env0_def)
  from timeout_error_never_surfaces [OF w p e] w p e show ?thesis by blast
qed

section \<open>A rejected publish\<close>

text \<open>Should the promise of \<^verbatim>\<open>client.pubsub.publish\<close> reject, the call fails at once with the
  \<^verbatim>\<open>DaprError\<close> of \<^verbatim>\<open>publishEvent\<close>, after the registration and the publish attempt.\<close>

lemma callTool_publish_failed:
  assumes "\<not> publishOk env"
  shows "\<exists>st4. callTool cfg env st tool args =
                 (Some (Inl (Fail (DaprError ''publishEvent''
                                     ''Dapr operation 'publishEvent' failed''))), st4)
             \<and> pendingRequests st4 = (pendingRequests st)(uuid env \<mapsto>
                  \<lparr>deferred = nextDeferred st, timestamp = now env, toolName = Some tool\<rparr>)
             \<and> (\<exists>payload. published_requestId payload = JStr (uuid env)
                  \<and> trace st4 = trace st @
                  [Log Debug ''Creating MCP tool request'', RegistrySet (uuid env),
                   Log Debug (''Publishing event to '' @ pubsubName cfg @ ''/'' @ toolRequestTopic),
                   Publish (pubsubName cfg) toolRequestTopic payload])"
  unfolding callTool_def Deferred_make_def publishEvent_ai_svc_def Let_def
  by (simp add: assms published_requestId_def field_def)

lemma sample_publish_failed:
  assumes "\<not> publishOk env"
  shows "\<exists>st4. sample cfg env st prompt model temperature =
                 (Some (Inl (Fail (DaprError ''publishEvent''
                    (''Failed to publish event to '' @ pubsubName cfg @ ''/'' @ topicName cfg)))),
                  st4)
             \<and> pendingRequests st4 = (pendingRequests st)(uuid env \<mapsto>
                  \<lparr>deferred = nextDeferred st, timestamp = now env, toolName = None\<rparr>)
             \<and> (\<exists>payload. published_requestId payload = JStr (uuid env)
                  \<and> trace st4 = trace st @
                  [Log Debug ''Creating sampling request'', RegistrySet (uuid env),
                   Log Debug (''Publishing event to '' @ pubsubName cfg @ ''/'' @ topicName cfg),
                   Publish (pubsubName cfg) (topicName cfg) payload])"
  unfolding sample_def Deferred_make_def publishEvent_readme_mcp_def Let_def
  by (simp add: assms published_requestId_def field_def)

section \<open>Registered before published\<close>

lemma no_publish_registered:
  "\<forall>ps t p. Publish ps t p \<notin> set X \<Longrightarrow> publishes_registered reg X"
  by (induction reg X rule: publishes_registered.induct) auto

lemma handleResponse_trace:
  "handleResponse svc st r = Inr st' \<Longrightarrow>
     \<exists>X. trace st' = trace st @ X \<and> (\<forall>ps t p. Publish ps t p \<notin> set X)"
  by (cases svc)
     (auto simp: McpBridge_handleResponse_def LlmClient_handleResponse_def Let_def
                 Deferred_fail_def Deferred_succeed_def Deferred_done_trace
           split: option.splits sum.splits if_splits)

lemma deliver_trace:
  "\<exists>X. trace (deliver svc st r) = trace st @ X \<and> (\<forall>ps t p. Publish ps t p \<notin> set X)"
  using handleResponse_trace [of svc st r]
  by (auto simp: deliver_def split: sum.split)

lemma race_trace:
  "\<exists>X. trace (snd (race svc terr rid d ph st es)) = trace st @ X
       \<and> (\<forall>ps t p. Publish ps t p \<notin> set X)"
proof (induction es arbitrary: ph st)
  case Nil
  then show ?case by simp
next
  case (Cons e es)
  have step: "\<exists>X. trace (snd (race svc terr rid d ph' st' es)) = trace st @ X
                \<and> (\<forall>ps t p. Publish ps t p \<notin> set X)"
    if "\<exists>Y. trace st' = trace st @ Y \<and> (\<forall>ps t p. Publish ps t p \<notin> set Y)" for ph' st'
  proof -
    from that obtain Y where y: "trace st' = trace st @ Y" "\<forall>ps t p. Publish ps t p \<notin> set Y"
      by blast
    from Cons.IH [of ph' st'] obtain X where
      x: "trace (snd (race svc terr rid d ph' st' es)) = trace st' @ X"
         "\<forall>ps t p. Publish ps t p \<notin> set X"
      by blast
    have "trace (snd (race svc terr rid d ph' st' es)) = trace st @ (Y @ X)"
      using x(1) y(1) by simp
    moreover have "\<forall>ps t p. Publish ps t p \<notin> set (Y @ X)"
      using x(2) y(2) by simp
    ultimately show ?thesis by blast
  qed
  have del: "\<exists>Y. trace (registry_delete rid st) = trace st @ Y
               \<and> (\<forall>ps t p. Publish ps t p \<notin> set Y)"
    by simp
  have same: "\<exists>Y. trace st = trace st @ Y \<and> (\<forall>ps t p. Publish ps t p \<notin> set Y)"
    by simp
  show ?case
  proof (cases e)
    case (Deliver r)
    show ?thesis
      using step [OF deliver_trace [of svc st r]] deliver_trace [of svc st r]
      by (cases ph) (auto simp: Deliver Let_def split: option.split sum.split)
  next
    case TimerFires
    show ?thesis
      using step [OF del] step [OF same] del
      by (cases ph) (auto simp: TimerFires)
  qed
qed


lemma cleanup_trace:
  "\<exists>Z. trace (snd (cleanup_successful_request rid r)) = trace (snd r) @ Z
       \<and> (\<forall>ps t p. Publish ps t p \<notin> set Z)"
  by (auto simp: cleanup_snd split: option.split sum.split)

lemma after_race_trace:
  "\<exists>W. trace (snd (cleanup_successful_request rid (race svc terr rid d ph st es)))
         = trace st @ W \<and> (\<forall>ps t p. Publish ps t p \<notin> set W)"
proof -
  obtain X where x: "trace (snd (race svc terr rid d ph st es)) = trace st @ X"
      "\<forall>ps t p. Publish ps t p \<notin> set X"
    using race_trace by blast
  obtain Z where z: "trace (snd (cleanup_successful_request rid (race svc terr rid d ph st es)))
         = trace (snd (race svc terr rid d ph st es)) @ Z" "\<forall>ps t p. Publish ps t p \<notin> set Z"
    using cleanup_trace by blast
  have "trace (snd (cleanup_successful_request rid (race svc terr rid d ph st es)))
         = trace st @ (X @ Z)"
    using x(1) z(1) by simp
  moreover have "\<forall>ps t p. Publish ps t p \<notin> set (X @ Z)"
    using x(2) z(2) by simp
  ultimately show ?thesis by blast
qed

lemma callTool_publishes_registered:
  "publishes_registered {} (emitted st (snd (callTool cfg env st tool args)))
   \<and> (\<exists>ps t p. Publish ps t p \<in> set (emitted st (snd (callTool cfg env st tool args))))"
proof (cases "publishOk env")
  case True
  from callTool_published [OF True, of cfg st tool args]
  obtain st5 payload where c: "callTool cfg env st tool args =
       cleanup_successful_request (uuid env)
         (race McpBridgeService (McpToolTimeoutError tool (uuid env) toolTimeout)
            (uuid env) (nextDeferred st) Racing st5 (events env))"
    and p: "published_requestId payload = JStr (uuid env)"
    and t: "trace st5 = trace st @
                  [Log Debug ''Creating MCP tool request'', RegistrySet (uuid env),
                   Log Debug (''Publishing event to '' @ pubsubName cfg @ ''/'' @ toolRequestTopic),
                   Publish (pubsubName cfg) toolRequestTopic payload,
                   Log Info (''Event published successfully to '' @ pubsubName cfg @ ''/''
                               @ toolRequestTopic),
                   Log Info ''MCP tool request published'']"
    by blast
  obtain W where w: "trace (snd (callTool cfg env st tool args)) = trace st5 @ W"
      "\<forall>ps t p. Publish ps t p \<notin> set W"
    using after_race_trace c by metis
  have "emitted st (snd (callTool cfg env st tool args)) =
          [Log Debug ''Creating MCP tool request'', RegistrySet (uuid env),
           Log Debug (''Publishing event to '' @ pubsubName cfg @ ''/'' @ toolRequestTopic),
           Publish (pubsubName cfg) toolRequestTopic payload,
           Log Info (''Event published successfully to '' @ pubsubName cfg @ ''/''
                       @ toolRequestTopic),
           Log Info ''MCP tool request published''] @ W"
    by (rule emitted_eq) (simp add: w(1) t)
  then show ?thesis
    using p w(2) by (simp add: no_publish_registered)
next
  case False
  from callTool_publish_failed [OF False, of cfg st tool args]
  obtain st4 payload where c: "snd (callTool cfg env st tool args) = st4"
    and p: "published_requestId payload = JStr (uuid env)"
    and t: "trace st4 = trace st @
                  [Log Debug ''Creating MCP tool request'', RegistrySet (uuid env),
                   Log Debug (''Publishing event to '' @ pubsubName cfg @ ''/'' @ toolRequestTopic),
                   Publish (pubsubName cfg) toolRequestTopic payload]"
    by force
  have "emitted st (snd (callTool cfg env st tool args)) =
          [Log Debug ''Creating MCP tool request'', RegistrySet (uuid env),
           Log Debug (''Publishing event to '' @ pubsubName cfg @ ''/'' @ toolRequestTopic),
           Publish (pubsubName cfg) toolRequestTopic payload]"
    by (rule emitted_eq) (simp add: c t)
  then show ?thesis
    using p by simp
qed

lemma sample_publishes_registered:
  "publishes_registered {} (emitted st (snd (sample cfg env st prompt model temperature)))
   \<and> (\<exists>ps t p. Publish ps t p \<in> set (emitted st (snd (sample cfg env st prompt model temperature))))"
proof (cases "publishOk env")
  case True
  from sample_published [OF True, of cfg st prompt model temperature]
  obtain st5 payload where c: "sample cfg env st prompt model temperature =
       cleanup_successful_request (uuid env)
         (race LlmClientService
            (TimeoutError ''sample'' (samplingTimeout cfg)
               (''Sampling request '' @ uuid env @ '' timed out after ''
                  @ digits (samplingTimeout cfg) @ ''ms''))
            (uuid env) (nextDeferred st) Racing st5 (events env))"
    and p: "published_requestId payload = JStr (uuid env)"
    and t: "trace st5 = trace st @
                  [Log Debug ''Creating sampling request'', RegistrySet (uuid env),
                   Log Debug (''Publishing event to '' @ pubsubName cfg @ ''/'' @ topicName cfg),
                   Publish (pubsubName cfg) (topicName cfg) payload,
                   Log Info ''Event published successfully'',
                   Log Info ''Sampling request published'']"
    by blast
  obtain W where w: "trace (snd (sample cfg env st prompt model temperature)) = trace st5 @ W"
      "\<forall>ps t p. Publish ps t p \<notin> set W"
    using after_race_trace c by metis
  have "emitted st (snd (sample cfg env st prompt model temperature)) =
          [Log Debug ''Creating sampling request'', RegistrySet (uuid env),
           Log Debug (''Publishing event to '' @ pubsubName cfg @ ''/'' @ topicName cfg),
           Publish (pubsubName cfg) (topicName cfg) payload,
           Log Info ''Event published successfully'',
           Log Info ''Sampling request published''] @ W"
    by (rule emitted_eq) (simp add: w(1) t)
  then show ?thesis
    using p w(2) by (simp add: no_publish_registered)
next
  case False
  from sample_publish_failed [OF False, of cfg st prompt model temperature]
  obtain st4 payload where c: "snd (sample cfg env st prompt model temperature) = st4"
    and p: "published_requestId payload = JStr (uuid env)"
    and t: "trace st4 = trace st @
                  [Log Debug ''Creating sampling request'', RegistrySet (uuid env),
                   Log Debug (''Publishing event to '' @ pubsubName cfg @ ''/'' @ topicName cfg),
                   Publish (pubsubName cfg) (topicName cfg) payload]"
    by force
  have "emitted st (snd (sample cfg env st prompt model temperature)) =
          [Log Debug ''Creating sampling request'', RegistrySet (uuid env),
           Log Debug (''Publishing event to '' @ pubsubName cfg @ ''/'' @ topicName cfg),
           Publish (pubsubName cfg) (topicName cfg) payload]"
    by (rule emitted_eq) (simp add: c t)
  then show ?thesis
    using p by simp
qed

lemma publish_then_race_trace_ai_svc:
  "\<exists>rest. trace (snd (case publishEvent_ai_svc ok ps tn payload st3 of
                        (Some e, st4) \<Rightarrow> (Some (Inl (Fail e)), st4)
                      | (None, st4) \<Rightarrow>
                          cleanup_successful_request rid
                            (race svc terr rid d Racing (emit (Log l m) st4) es)))
            = trace st3 @ [Log Debug (''Publishing event to '' @ ps @ ''/'' @ tn),
                           Publish ps tn payload] @ rest
         \<and> (\<forall>ps' t p. Publish ps' t p \<notin> set rest)"
proof (cases ok)
  case True
  define st5 where "st5 = emit (Log l m) (snd (publishEvent_ai_svc True ps tn payload st3))"
  have t5: "trace st5 = trace st3 @ [Log Debug (''Publishing event to '' @ ps @ ''/'' @ tn),
                                     Publish ps tn payload,
                                     Log Info (''Event published successfully to '' @ ps @ ''/''
                                                 @ tn),
                                     Log l m]"
    by (simp add: st5_def publishEvent_ai_svc_def Let_def)
  obtain W where w: "trace (snd (cleanup_successful_request rid
                                   (race svc terr rid d Racing st5 es))) = trace st5 @ W"
      "\<forall>ps' t p. Publish ps' t p \<notin> set W"
    using after_race_trace [of rid svc terr d Racing st5 es] by blast
  have c: "(case publishEvent_ai_svc ok ps tn payload st3 of
              (Some e, st4) \<Rightarrow> (Some (Inl (Fail e)), st4)
            | (None, st4) \<Rightarrow>
                cleanup_successful_request rid
                  (race svc terr rid d Racing (emit (Log l m) st4) es))
           = cleanup_successful_request rid (race svc terr rid d Racing st5 es)"
    using True by (simp add: st5_def publishEvent_ai_svc_def Let_def)
  show ?thesis
    unfolding c w(1) t5
    by (rule exI [of _ "[Log Info (''Event published successfully to '' @ ps @ ''/'' @ tn),
                          Log l m] @ W"])
       (simp add: w(2))
next
  case False
  then show ?thesis
    by (simp add: publishEvent_ai_svc_def Let_def)
qed

lemma publish_then_race_trace_readme_mcp:
  "\<exists>rest. trace (snd (case publishEvent_readme_mcp ok ps tn payload st3 of
                        (Some e, st4) \<Rightarrow> (Some (Inl (Fail e)), st4)
                      | (None, st4) \<Rightarrow>
                          cleanup_successful_request rid
                            (race svc terr rid d Racing (emit (Log l m) st4) es)))
            = trace st3 @ [Log Debug (''Publishing event to '' @ ps @ ''/'' @ tn),
                           Publish ps tn payload] @ rest
         \<and> (\<forall>ps' t p. Publish ps' t p \<notin> set rest)"
proof (cases ok)
  case True
  define st5 where "st5 = emit (Log l m) (snd (publishEvent_readme_mcp True ps tn payload st3))"
  have t5: "trace st5 = trace st3 @ [Log Debug (''Publishing event to '' @ ps @ ''/'' @ tn),
                                     Publish ps tn payload,
                                     Log Info ''Event published successfully'',
                                     Log l m]"
    by (simp add: st5_def publishEvent_readme_mcp_def Let_def)
  obtain W where w: "trace (snd (cleanup_successful_request rid
                                   (race svc terr rid d Racing st5 es))) = trace st5 @ W"
      "\<forall>ps' t p. Publish ps' t p \<notin> set W"
    using after_race_trace [of rid svc terr d Racing st5 es] by blast
  have c: "(case publishEvent_readme_mcp ok ps tn payload st3 of
              (Some e, st4) \<Rightarrow> (Some (Inl (Fail e)), st4)
            | (None, st4) \<Rightarrow>
                cleanup_successful_request rid
                  (race svc terr rid d Racing (emit (Log l m) st4) es))
           = cleanup_successful_request rid (race svc terr rid d Racing st5 es)"
    using True by (simp add: st5_def publishEvent_readme_mcp_def Let_def)
  show ?thesis
    unfolding c w(1) t5
    by (rule exI [of _ "[Log Info ''Event published successfully'', Log l m] @ W"])
       (simp add: w(2))
next
  case False
  then show ?thesis
    by (simp add: publishEvent_readme_mcp_def Let_def)
qed

lemma callTool_at_publish:
  "\<exists>st3 payload.
      callTool cfg env st tool args =
        (case publishEvent_ai_svc (publishOk env) (pubsubName cfg) toolRequestTopic payload st3 of
           (Some e, st4) \<Rightarrow> (Some (Inl (Fail e)), st4)
         | (None, st4) \<Rightarrow>
             cleanup_successful_request (uuid env)
               (race McpBridgeService (McpToolTimeoutError tool (uuid env) toolTimeout)
                  (uuid env) (nextDeferred st) Racing
                  (emit (Log Info ''MCP tool request published'') st4) (events env)))
    \<and> published_requestId payload = JStr (uuid env)
    \<and> pendingRequests st3 = (pendingRequests st)(uuid env \<mapsto>
         \<lparr>deferred = nextDeferred st, timestamp = now env, toolName = Some tool\<rparr>)
    \<and> deferreds st3 (nextDeferred st) = None
    \<and> emitted st st3 = [Log Debug ''Creating MCP tool request'', RegistrySet (uuid env)]
    \<and> (\<exists>rest. emitted st (snd (callTool cfg env st tool args)) =
          [Log Debug ''Creating MCP tool request'', RegistrySet (uuid env),
           Log Debug (''Publishing event to '' @ pubsubName cfg @ ''/'' @ toolRequestTopic),
           Publish (pubsubName cfg) toolRequestTopic payload] @ rest
        \<and> (\<forall>ps t p. Publish ps t p \<notin> set rest))"
proof -
  define payload where "payload = JObj [(''specversion'', JStr ''1.0''),
                        (''type'', JStr ''mcp.tool.request''),
                        (''source'', JStr ''ai-svc''),
                        (''id'', JStr (uuid2 env)),
                        (''data'', JObj [(''requestId'', JStr (uuid env)),
                                         (''tool'', JStr tool),
                                         (''arguments'', args)])]"
  define st3 where "st3 = registry_set (uuid env)
                \<lparr>deferred = nextDeferred st, timestamp = now env, toolName = Some tool\<rparr>
                (snd (Deferred_make (emit (Log Debug ''Creating MCP tool request'') st)))"
  have eq: "callTool cfg env st tool args =
        (case publishEvent_ai_svc (publishOk env) (pubsubName cfg) toolRequestTopic payload st3 of
           (Some e, st4) \<Rightarrow> (Some (Inl (Fail e)), st4)
         | (None, st4) \<Rightarrow>
             cleanup_successful_request (uuid env)
               (race McpBridgeService (McpToolTimeoutError tool (uuid env) toolTimeout)
                  (uuid env) (nextDeferred st) Racing
                  (emit (Log Info ''MCP tool request published'') st4) (events env)))"
    unfolding callTool_def Let_def payload_def st3_def
    by (simp add: Deferred_make_def)
  have p: "published_requestId payload = JStr (uuid env)"
    by (simp add: payload_def published_requestId_def field_def)
  have r: "pendingRequests st3 = (pendingRequests st)(uuid env \<mapsto>
         \<lparr>deferred = nextDeferred st, timestamp = now env, toolName = Some tool\<rparr>)"
    by (simp add: st3_def Deferred_make_def)
  have d: "deferreds st3 (nextDeferred st) = None"
    by (simp add: st3_def Deferred_make_def)
  have t: "trace st3 = trace st @ [Log Debug ''Creating MCP tool request'', RegistrySet (uuid env)]"
    by (simp add: st3_def Deferred_make_def)
  have e: "emitted st st3 = [Log Debug ''Creating MCP tool request'', RegistrySet (uuid env)]"
    by (rule emitted_eq) (rule t)
  obtain rest where
    tr: "trace (snd (callTool cfg env st tool args))
           = trace st3 @ [Log Debug (''Publishing event to '' @ pubsubName cfg @ ''/''
                                       @ toolRequestTopic),
                          Publish (pubsubName cfg) toolRequestTopic payload] @ rest"
    and np: "\<forall>ps t p. Publish ps t p \<notin> set rest"
    unfolding eq using publish_then_race_trace_ai_svc by blast
  have "trace (snd (callTool cfg env st tool args)) = trace st @
          ([Log Debug ''Creating MCP tool request'', RegistrySet (uuid env),
            Log Debug (''Publishing event to '' @ pubsubName cfg @ ''/'' @ toolRequestTopic),
            Publish (pubsubName cfg) toolRequestTopic payload] @ rest)"
    unfolding tr t by simp
  then have em: "emitted st (snd (callTool cfg env st tool args)) =
          [Log Debug ''Creating MCP tool request'', RegistrySet (uuid env),
           Log Debug (''Publishing event to '' @ pubsubName cfg @ ''/'' @ toolRequestTopic),
           Publish (pubsubName cfg) toolRequestTopic payload] @ rest"
    by (rule emitted_eq)
  have rest: "\<exists>rest. emitted st (snd (callTool cfg env st tool args)) =
          [Log Debug ''Creating MCP tool request'', RegistrySet (uuid env),
           Log Debug (''Publishing event to '' @ pubsubName cfg @ ''/'' @ toolRequestTopic),
           Publish (pubsubName cfg) toolRequestTopic payload] @ rest
        \<and> (\<forall>ps t p. Publish ps t p \<notin> set rest)"
    by (rule exI [of _ rest]) (rule conjI [OF em np])
  show ?thesis
    by (rule exI [of _ st3], rule exI [of _ payload]) (intro conjI eq p r d e rest)
qed

lemma sample_at_publish:
  "\<exists>st3 payload.
      sample cfg env st prompt model temperature =
        (case publishEvent_readme_mcp (publishOk env) (pubsubName cfg) (topicName cfg) payload st3 of
           (Some e, st4) \<Rightarrow> (Some (Inl (Fail e)), st4)
         | (None, st4) \<Rightarrow>
             cleanup_successful_request (uuid env)
               (race LlmClientService
                  (TimeoutError ''sample'' (samplingTimeout cfg)
                     (''Sampling request '' @ uuid env @ '' timed out after ''
                        @ digits (samplingTimeout cfg) @ ''ms''))
                  (uuid env) (nextDeferred st) Racing
                  (emit (Log Info ''Sampling request published'') st4) (events env)))
    \<and> published_requestId payload = JStr (uuid env)
    \<and> pendingRequests st3 = (pendingRequests st)(uuid env \<mapsto>
         \<lparr>deferred = nextDeferred st, timestamp = now env, toolName = None\<rparr>)
    \<and> deferreds st3 (nextDeferred st) = None
    \<and> emitted st st3 = [Log Debug ''Creating sampling request'', RegistrySet (uuid env)]
    \<and> (\<exists>rest. emitted st (snd (sample cfg env st prompt model temperature)) =
          [Log Debug ''Creating sampling request'', RegistrySet (uuid env),
           Log Debug (''Publishing event to '' @ pubsubName cfg @ ''/'' @ topicName cfg),
           Publish (pubsubName cfg) (topicName cfg) payload] @ rest
        \<and> (\<forall>ps t p. Publish ps t p \<notin> set rest))"
proof -
  define payload where "payload = JObj [(''requestId'', JStr (uuid env)),
        (''prompt'', JStr prompt),
        (''model'', JStr (case model of None \<Rightarrow> ''azure/gpt-4.1'' | Some m \<Rightarrow> m)),
        (''temperature'', JNum (case temperature of None \<Rightarrow> 7 / 10 | Some t \<Rightarrow> t)),
        (''maxTokens'', JNum 2000),
        (''metadata'', JObj [(''source'', JStr ''readme-mcp''),
                             (''timestamp'', JStr (isoNow env))])]"
  define st3 where "st3 = registry_set (uuid env)
                \<lparr>deferred = nextDeferred st, timestamp = now env, toolName = None\<rparr>
                (snd (Deferred_make (emit (Log Debug ''Creating sampling request'') st)))"
  have eq: "sample cfg env st prompt model temperature =
        (case publishEvent_readme_mcp (publishOk env) (pubsubName cfg) (topicName cfg) payload st3 of
           (Some e, st4) \<Rightarrow> (Some (Inl (Fail e)), st4)
         | (None, st4) \<Rightarrow>
             cleanup_successful_request (uuid env)
               (race LlmClientService
                  (TimeoutError ''sample'' (samplingTimeout cfg)
                     (''Sampling request '' @ uuid env @ '' timed out after ''
                        @ digits (samplingTimeout cfg) @ ''ms''))
                  (uuid env) (nextDeferred st) Racing
                  (emit (Log Info ''Sampling request published'') st4) (events env)))"
    unfolding sample_def Let_def payload_def st3_def
    by (simp add: Deferred_make_def)
  have p: "published_requestId payload = JStr (uuid env)"
    by (simp add: payload_def published_requestId_def field_def)
  have r: "pendingRequests st3 = (pendingRequests st)(uuid env \<mapsto>
         \<lparr>deferred = nextDeferred st, timestamp = now env, toolName = None\<rparr>)"
    by (simp add: st3_def Deferred_make_def)
  have d: "deferreds st3 (nextDeferred st) = None"
    by (simp add: st3_def Deferred_make_def)
  have t: "trace st3 = trace st @ [Log Debug ''Creating sampling request'', RegistrySet (uuid env)]"
    by (simp add: st3_def Deferred_make_def)
  have e: "emitted st st3 = [Log Debug ''Creating sampling request'', RegistrySet (uuid env)]"
    by (rule emitted_eq) (rule t)
  obtain rest where
    tr: "trace (snd (sample cfg env st prompt model temperature))
           = trace st3 @ [Log Debug (''Publishing event to '' @ pubsubName cfg @ ''/''
                                       @ topicName cfg),
                          Publish (pubsubName cfg) (topicName cfg) payload] @ rest"
    and np: "\<forall>ps t p. Publish ps t p \<notin> set rest"
    unfolding eq using publish_then_race_trace_readme_mcp by blast
  have "trace (snd (sample cfg env st prompt model temperature)) = trace st @
          ([Log Debug ''Creating sampling request'', RegistrySet (uuid env),
            Log Debug (''Publishing event to '' @ pubsubName cfg @ ''/'' @ topicName cfg),
            Publish (pubsubName cfg) (topicName cfg) payload] @ rest)"
    unfolding tr t by simp
  then have em: "emitted st (snd (sample cfg env st prompt model temperature)) =
          [Log Debug ''Creating sampling request'', RegistrySet (uuid env),
           Log Debug (''Publishing event to '' @ pubsubName cfg @ ''/'' @ topicName cfg),
           Publish (pubsubName cfg) (topicName cfg) payload] @ rest"
    by (rule emitted_eq)
  have rest: "\<exists>rest. emitted st (snd (sample cfg env st prompt model temperature)) =
          [Log Debug ''Creating sampling request'', RegistrySet (uuid env),
           Log Debug (''Publishing event to '' @ pubsubName cfg @ ''/'' @ topicName cfg),
           Publish (pubsubName cfg) (topicName cfg) payload] @ rest
        \<and> (\<forall>ps t p. Publish ps t p \<notin> set rest)"
    by (rule exI [of _ rest]) (rule conjI [OF em np])
  show ?thesis
    by (rule exI [of _ st3], rule exI [of _ payload]) (intro conjI eq p r d e rest)
qed

text \<open>
  Claim C7. In every run of \<^verbatim>\<open>callTool\<close> and of \<^verbatim>\<open>sample\<close>, whatever the bridge, the
  broker's answer and the events of the race, the request is published from a bridge
  \<open>st3\<close> whose registry already holds the record of the request id that the payload
  carries, with the deferred the call will await, still uncompleted. Up to that bridge
  the run has only logged and registered; the publish is the fourth action of the run
  and the only publish of the run. Read as a trace, every publish carries a request id
  that the same run has put into the registry earlier and not deleted since (the check
  starts from no registered id at all).
\<close>

theorem request_registered_before_publish:
  "(\<exists>st3 payload.
      callTool cfg env st tool args =
        (case publishEvent_ai_svc (publishOk env) (pubsubName cfg) toolRequestTopic payload st3 of
           (Some e, st4) \<Rightarrow> (Some (Inl (Fail e)), st4)
         | (None, st4) \<Rightarrow>
             cleanup_successful_request (uuid env)
               (race McpBridgeService (McpToolTimeoutError tool (uuid env) toolTimeout)
                  (uuid env) (nextDeferred st) Racing
                  (emit (Log Info ''MCP tool request published'') st4) (events env)))
    \<and> published_requestId payload = JStr (uuid env)
    \<and> pendingRequests st3 = (pendingRequests st)(uuid env \<mapsto>
         \<lparr>deferred = nextDeferred st, timestamp = now env, toolName = Some tool\<rparr>)
    \<and> deferreds st3 (nextDeferred st) = None
    \<and> emitted st st3 = [Log Debug ''Creating MCP tool request'', RegistrySet (uuid env)]
    \<and> (\<exists>rest. emitted st (snd (callTool cfg env st tool args)) =
          [Log Debug ''Creating MCP tool request'', RegistrySet (uuid env),
           Log Debug (''Publishing event to '' @ pubsubName cfg @ ''/'' @ toolRequestTopic),
           Publish (pubsubName cfg) toolRequestTopic payload] @ rest
        \<and> (\<forall>ps t p. Publish ps t p \<notin> set rest)))
   \<and> publishes_registered {} (emitted st (snd (callTool cfg env st tool args)))
   \<and> (\<exists>ps t p. Publish ps t p \<in> set (emitted st (snd (callTool cfg env st tool args))))
   \<and> (\<exists>st3 payload.
      sample cfg env st prompt model temperature =
        (case publishEvent_readme_mcp (publishOk env) (pubsubName cfg) (topicName cfg) payload st3 of
           (Some e, st4) \<Rightarrow> (Some (Inl (Fail e)), st4)
         | (None, st4) \<Rightarrow>
             cleanup_successful_request (uuid env)
               (race LlmClientService
                  (TimeoutError ''sample'' (samplingTimeout cfg)
                     (''Sampling request '' @ uuid env @ '' timed out after ''
                        @ digits (samplingTimeout cfg) @ ''ms''))
                  (uuid env) (nextDeferred st) Racing
                  (emit (Log Info ''Sampling request published'') st4) (events env)))
    \<and> published_requestId payload = JStr (uuid env)
    \<and> pendingRequests st3 = (pendingRequests st)(uuid env \<mapsto>
         \<lparr>deferred = nextDeferred st, timestamp = now env, toolName = None\<rparr>)
    \<and> deferreds st3 (nextDeferred st) = None
    \<and> emitted st st3 = [Log Debug ''Creating sampling request'', RegistrySet (uuid env)]
    \<and> (\<exists>rest. emitted st (snd (sample cfg env st prompt model temperature)) =
          [Log Debug ''Creating sampling request'', RegistrySet (uuid env),
           Log Debug (''Publishing event to '' @ pubsubName cfg @ ''/'' @ topicName cfg),
           Publish (pubsubName cfg) (topicName cfg) payload] @ rest
        \<and> (\<forall>ps t p. Publish ps t p \<notin> set rest)))
   \<and> publishes_registered {} (emitted st (snd (sample cfg env st prompt model temperature)))
   \<and> (\<exists>ps t p. Publish ps t p
          \<in> set (emitted st (snd (sample cfg env st prompt model temperature))))"
  by (intro conjI callTool_at_publish sample_at_publish
        conjunct1 [OF callTool_publishes_registered]
        conjunct2 [OF callTool_publishes_registered]
        conjunct1 [OF sample_publishes_registered]
        conjunct2 [OF sample_publishes_registered])

section \<open>A publish that the broker refused\<close>

lemma race_failure_parallel:
  "fst (race svc terr rid d ph st es) \<noteq> Some (Inl (Fail e))"
proof (induction es arbitrary: ph st)
  case Nil
  then show ?case by simp
next
  case (Cons ev es)
  show ?case
  proof (cases ev)
    case (Deliver r)
    show ?thesis
      using Cons.IH
      by (cases ph) (auto simp: Deliver Let_def split: option.splits sum.splits)
  next
    case TimerFires
    show ?thesis
      using Cons.IH
      by (cases ph) (auto simp: TimerFires)
  qed
qed

lemma race_registry_before_timer:
  "TimerFires \<notin> set es \<Longrightarrow>
   pendingRequests (snd (race svc terr rid d ph st es)) = pendingRequests st"
proof (induction es arbitrary: ph st)
  case Nil
  then show ?case by simp
next
  case (Cons ev es)
  show ?case
  proof (cases ev)
    case (Deliver r)
    show ?thesis
      using Cons.IH [of _ "deliver svc st r"] Cons.prems
      by (cases ph) (auto simp: Deliver Let_def split: option.splits sum.splits)
  next
    case TimerFires
    then show ?thesis using Cons.prems by simp
  qed
qed

lemma callTool_ignores_publishResponse:
  "callTool cfg (env\<lparr>publishResponse := r\<rparr>) st tool args = callTool cfg env st tool args"
  by (simp add: callTool_def Let_def split: prod.split option.split)

lemma sample_ignores_publishResponse:
  "sample cfg (env\<lparr>publishResponse := r\<rparr>) st prompt model temperature
     = sample cfg env st prompt model temperature"
  by (simp add: sample_def Let_def split: prod.split option.split)

text \<open>
  Claim C4 at its failing input. When the broker refuses the request or cannot be
  reached, \<^verbatim>\<open>client.pubsub.publish\<close> resolves to \<^verbatim>\<open>{ error }\<close>; \<^verbatim>\<open>publishEvent\<close> does not
  read that value, logs that the event was published and succeeds. So \<^verbatim>\<open>callTool\<close> and
  \<^verbatim>\<open>sample\<close> do exactly what they do after an accepted publish: they never fail with a
  single error such as the \<^verbatim>\<open>DaprError\<close> of \<^verbatim>\<open>publishEvent\<close> (a failure of the race is
  always a pair of causes, one of them the timeout), the record registered before the
  publish is still in the registry for as long as the timer has not fired and no
  response has succeeded, and with no event at all the call is suspended in its race.
\<close>

theorem publish_error_not_surfaced:
  assumes "publishOk env" and "present (publishResponse env) ''error''"
  shows "fst (callTool cfg env st tool args) \<noteq> Some (Inl (Fail e))
       \<and> callTool cfg env st tool args
           = callTool cfg (env\<lparr>publishResponse := JObj []\<rparr>) st tool args
       \<and> Log Info (''Event published successfully to '' @ pubsubName cfg @ ''/''
                     @ toolRequestTopic)
           \<in> set (emitted st (snd (callTool cfg env st tool args)))
       \<and> (TimerFires \<notin> set (events env)
            \<and> (\<forall>v. fst (callTool cfg env st tool args) \<noteq> Some (Inr v)) \<longrightarrow>
          pendingRequests (snd (callTool cfg env st tool args)) (uuid env)
            = Some \<lparr>deferred = nextDeferred st, timestamp = now env, toolName = Some tool\<rparr>)
       \<and> (events env = [] \<longrightarrow> fst (callTool cfg env st tool args) = None)
       \<and> fst (sample cfg env st prompt model temperature) \<noteq> Some (Inl (Fail e))
       \<and> sample cfg env st prompt model temperature
           = sample cfg (env\<lparr>publishResponse := JObj []\<rparr>) st prompt model temperature
       \<and> Log Info ''Event published successfully''
           \<in> set (emitted st (snd (sample cfg env st prompt model temperature)))
       \<and> (TimerFires \<notin> set (events env)
            \<and> (\<forall>v. fst (sample cfg env st prompt model temperature) \<noteq> Some (Inr v)) \<longrightarrow>
          pendingRequests (snd (sample cfg env st prompt model temperature)) (uuid env)
            = Some \<lparr>deferred = nextDeferred st, timestamp = now env, toolName = None\<rparr>)
       \<and> (events env = [] \<longrightarrow> fst (sample cfg env st prompt model temperature) = None)"
proof -
  obtain st5 X where c: "callTool cfg env st tool args =
       cleanup_successful_request (uuid env)
         (race McpBridgeService (McpToolTimeoutError tool (uuid env) toolTimeout)
            (uuid env) (nextDeferred st) Racing st5 (events env))"
    and r: "pendingRequests st5 = (pendingRequests st)(uuid env \<mapsto>
           \<lparr>deferred = nextDeferred st, timestamp = now env, toolName = Some tool\<rparr>)"
    and t: "trace st5 = trace st @ X"
           "Log Info (''Event published successfully to '' @ pubsubName cfg @ ''/''
                        @ toolRequestTopic) \<in> set X"
    using callTool_published [OF assms(1), of cfg st tool args] by fastforce
  obtain W where w: "trace (snd (callTool cfg env st tool args)) = trace st5 @ W"
    using after_race_trace c by metis
  have c1: "fst (callTool cfg env st tool args) \<noteq> Some (Inl (Fail e))"
    by (simp add: c cleanup_fst race_failure_parallel)
  have c2: "callTool cfg env st tool args
           = callTool cfg (env\<lparr>publishResponse := JObj []\<rparr>) st tool args"
    by (simp add: callTool_ignores_publishResponse)
  have "emitted st (snd (callTool cfg env st tool args)) = X @ W"
    by (rule emitted_eq) (simp add: w t(1))
  then have c3: "Log Info (''Event published successfully to '' @ pubsubName cfg @ ''/''
                     @ toolRequestTopic)
           \<in> set (emitted st (snd (callTool cfg env st tool args)))"
    using t(2) by simp
  have c4: "pendingRequests (snd (callTool cfg env st tool args)) (uuid env)
            = Some \<lparr>deferred = nextDeferred st, timestamp = now env, toolName = Some tool\<rparr>"
    if "TimerFires \<notin> set (events env)"
       "\<forall>v. fst (callTool cfg env st tool args) \<noteq> Some (Inr v)"
    using that r
    by (auto simp: c cleanup_fst cleanup_snd race_registry_before_timer
             split: option.splits sum.splits)
  have c5: "fst (callTool cfg env st tool args) = None" if "events env = []"
    using that by (simp add: c cleanup_fst)
  obtain st5' X' where s: "sample cfg env st prompt model temperature =
       cleanup_successful_request (uuid env)
         (race LlmClientService
            (TimeoutError ''sample'' (samplingTimeout cfg)
               (''Sampling request '' @ uuid env @ '' timed out after ''
                  @ digits (samplingTimeout cfg) @ ''ms''))
            (uuid env) (nextDeferred st) Racing st5' (events env))"
    and r': "pendingRequests st5' = (pendingRequests st)(uuid env \<mapsto>
           \<lparr>deferred = nextDeferred st, timestamp = now env, toolName = None\<rparr>)"
    and t': "trace st5' = trace st @ X'"
           "Log Info ''Event published successfully'' \<in> set X'"
    using sample_published [OF assms(1), of cfg st prompt model temperature] by fastforce
  obtain W' where w': "trace (snd (sample cfg env st prompt model temperature)) = trace st5' @ W'"
    using after_race_trace s by metis
  have s1: "fst (sample cfg env st prompt model temperature) \<noteq> Some (Inl (Fail e))"
    by (simp add: s cleanup_fst race_failure_parallel)
  have s2: "sample cfg env st prompt model temperature
           = sample cfg (env\<lparr>publishResponse := JObj []\<rparr>) st prompt model temperature"
    by (simp add: sample_ignores_publishResponse)
  have "emitted st (snd (sample cfg env st prompt model temperature)) = X' @ W'"
    by (rule emitted_eq) (simp add: w' t'(1))
  then have s3: "Log Info ''Event published successfully''
           \<in> set (emitted st (snd (sample cfg env st prompt model temperature)))"
    using t'(2) by simp
  have s4: "pendingRequests (snd (sample cfg env st prompt model temperature)) (uuid env)
            = Some \<lparr>deferred = nextDeferred st, timestamp = now env, toolName = None\<rparr>"
    if "TimerFires \<notin> set (events env)"
       "\<forall>v. fst (sample cfg env st prompt model temperature) \<noteq> Some (Inr v)"
    using that r'
    by (auto simp: s cleanup_fst cleanup_snd race_registry_before_timer
             split: option.splits sum.splits)
  have s5: "fst (sample cfg env st prompt model temperature) = None" if "events env = []"
    using that by (simp add: s cleanup_fst)
  from c1 c2 c3 c4 c5 s1 s2 s3 s4 s5 show ?thesis
    by blast
qed

theorem publish_error_not_surfaced_witness:
  "publishOk ((env0 True [])\<lparr>publishResponse := JObj [(''error'', JStr ''connection refused'')]\<rparr>)
   \<and> present (publishResponse
        ((env0 True [])\<lparr>publishResponse := JObj [(''error'', JStr ''connection refused'')]\<rparr>))
        ''error''
   \<and> TimerFires \<notin> set (events
        ((env0 True [])\<lparr>publishResponse := JObj [(''error'', JStr ''connection refused'')]\<rparr>))
   \<and> events ((env0 True [])\<lparr>publishResponse := JObj [(''error'', JStr ''connection refused'')]\<rparr>)
       = []
   \<and> fst (callTool cfg0
        ((env0 True [])\<lparr>publishResponse := JObj [(''error'', JStr ''connection refused'')]\<rparr>)
        init ''validate-readme'' (JObj [])) = None
   \<and> pendingRequests (snd (callTool cfg0
        ((env0 True [])\<lparr>publishResponse := JObj [(''error'', JStr ''connection refused'')]\<rparr>)
        init ''validate-readme'' (JObj []))) ''r1''
       = Some \<lparr>deferred = 0, timestamp = 17, toolName = Some ''validate-readme''\<rparr>
   \<and> fst (sample cfg0
        ((env0 True [])\<lparr>publishResponse := JObj [(''error'', JStr ''connection refused'')]\<rparr>)
        init ''hello'' None None) = None
   \<and> pendingRequests (snd (sample cfg0
        ((env0 True [])\<lparr>publishResponse := JObj [(''error'', JStr ''connection refused'')]\<rparr>)
        init ''hello'' None None)) ''r1''
       = Some \<lparr>deferred = 0, timestamp = 17, toolName = None\<rparr>"
proof -
  let ?env = "(env0 True [])\<lparr>publishResponse := JObj [(''error'', JStr ''connection refused'')]\<rparr>"
  have h: "publishOk ?env" "present (publishResponse ?env) ''error''"
    by (simp_all add: env0_def present_def field_def)
  have e: "events ?env = []" "uuid ?env = ''r1''" "now ?env = 17"
    by (simp_all add: env0_def)
  have i: "nextDeferred init = 0"
    by (simp add: init_def)
  note th = publish_error_not_surfaced
      [OF h, where cfg = cfg0 and st = init and tool = "''validate-readme''" and args = "JObj []"
         and prompt = "''hello''" and model = None and temperature = None
         and e = "DaprError ''publishEvent'' ''Dapr operation 'publishEvent' failed''"]
  have a: "fst (callTool cfg0 ?env init ''validate-readme'' (JObj [])) = None"
          "fst (sample cfg0 ?env init ''hello'' None None) = None"
    using th e(1) by blast+
  have b0: "TimerFires \<notin> set (events ?env)
            \<and> (\<forall>v. fst (callTool cfg0 ?env init ''validate-readme'' (JObj [])) \<noteq> Some (Inr v))
          \<longrightarrow> pendingRequests (snd (callTool cfg0 ?env init ''validate-readme'' (JObj [])))
                (uuid ?env)
              = Some \<lparr>deferred = nextDeferred init, timestamp = now ?env,
                       toolName = Some ''validate-readme''\<rparr>"
    using th by blast
  have b: "pendingRequests (snd (callTool cfg0 ?env init ''validate-readme'' (JObj []))) ''r1''
             = Some \<lparr>deferred = 0, timestamp = 17, toolName = Some ''validate-readme''\<rparr>"
    using b0 a(1) e i by simp
  have c0: "TimerFires \<notin> set (events ?env)
            \<and> (\<forall>v. fst (sample cfg0 ?env init ''hello'' None None) \<noteq> Some (Inr v))
          \<longrightarrow> pendingRequests (snd (sample cfg0 ?env init ''hello'' None None)) (uuid ?env)
              = Some \<lparr>deferred = nextDeferred init, timestamp = now ?env, toolName = None\<rparr>"
    using th by blast
  have c: "pendingRequests (snd (sample cfg0 ?env init ''hello'' None None)) ''r1''
             = Some \<lparr>deferred = 0, timestamp = 17, toolName = None\<rparr>"
    using c0 a(2) e i by simp
  from h e(1) a b c show ?thesis
    by simp
qed

section \<open>Inbound endpoints: acknowledgement\<close>

lemma responses_append [simp]: "responses (xs @ ys) = responses xs @ responses ys"
  by (induction xs rule: responses.induct) auto

lemma invoked_append [simp]: "invoked (xs @ ys) = invoked xs @ invoked ys"
  by (induction xs rule: invoked.induct) auto

lemma get_prop_non_nullish:
  "v \<noteq> JUndefined \<Longrightarrow> v \<noteq> JNull \<Longrightarrow> \<exists>x. get_prop v k = Inr x"
  by (cases v) auto

lemma handleResponse_quiet:
  "handleResponse svc st r = Inr st' \<Longrightarrow>
     \<exists>X. trace st' = trace st @ X \<and> responses X = [] \<and> invoked X = []"
  by (cases svc)
     (auto simp: McpBridge_handleResponse_def LlmClient_handleResponse_def Let_def
                 Deferred_fail_def Deferred_succeed_def Deferred_done_trace
           split: option.splits sum.splits if_splits)

lemma handleResponse_returns:
  assumes "r \<noteq> JUndefined" and "r \<noteq> JNull"
  shows "\<exists>st'. handleResponse svc st r = Inr st'"
proof -
  obtain a b c d e where "get_prop r ''requestId'' = Inr a" "get_prop r ''error'' = Inr b"
    "get_prop r ''result'' = Inr c" "get_prop r ''tokensUsed'' = Inr d"
    "get_prop r ''content'' = Inr e"
    using get_prop_non_nullish [OF assms] by metis
  then show ?thesis
    by (cases svc)
       (auto simp: McpBridge_handleResponse_def LlmClient_handleResponse_def Let_def
             split: option.splits)
qed

text \<open>
  Claim C9, as stated, fails: a body that is not a CloudEvent (here a bare response
  envelope) does not pass the schema, and both endpoints then log at error level and
  answer 500, which tells the broker that the message was not processed.
\<close>

theorem acknowledge_every_message_counterexample:
  "decodeCloudEvent (ok_response ''r1'') = Inl ParseError
   \<and> ai_svc_mcp_tool_events pending1 (ok_response ''r1'') =
       pending1\<lparr>trace := [Log Info ''Received MCP tool response from Dapr pub/sub'',
                           Log Debug ''Request body'',
                           Log Error ''Error processing MCP tool response'', Respond 500]\<rparr>
   \<and> readme_mcp_mcp_events pending1 (ok_response ''r1'') =
       pending1\<lparr>trace := [Log Debug ''Received MCP event'',
                           Log Error ''Failed to process event'', Respond 500]\<rparr>"
  by (simp add: ai_svc_mcp_tool_events_def readme_mcp_mcp_events_def ok_response_def
        required_string_def pending1_def emit_def)

lemma ai_svc_mcp_tool_events_valid:
  assumes "decodeCloudEvent body = Inr ev"
    and "ce_type ev \<noteq> ''mcp.tool.response'' \<or> (ce_data ev \<noteq> JUndefined \<and> ce_data ev \<noteq> JNull)"
  shows "responses (emitted st (ai_svc_mcp_tool_events st body)) = [200]"
proof (cases "ce_type ev = ''mcp.tool.response''")
  case False
  then show ?thesis
    by (simp add: ai_svc_mcp_tool_events_def assms(1) emitted_def)
next
  case True
  let ?st2 = "emit (Log Debug ''Request body'')
                (emit (Log Info ''Received MCP tool response from Dapr pub/sub'') st)"
  from True assms(2) obtain st3 where h: "McpBridge_handleResponse ?st2 (ce_data ev) = Inr st3"
    using handleResponse_returns [of "ce_data ev" McpBridgeService ?st2] by auto
  then obtain X where "trace st3 = trace ?st2 @ X" "responses X = []"
    using handleResponse_quiet [of McpBridgeService ?st2 "ce_data ev" st3] by auto
  then show ?thesis
    by (simp add: ai_svc_mcp_tool_events_def assms(1) True h emitted_def)
qed

lemma readme_mcp_mcp_events_valid:
  assumes "decodeCloudEvent body = Inr ev"
    and "ce_type ev \<noteq> ''mcp.sampling.response''
           \<or> (ce_data ev \<noteq> JUndefined \<and> ce_data ev \<noteq> JNull)"
  shows "responses (emitted st (readme_mcp_mcp_events st body)) = [200]"
proof (cases "ce_type ev = ''mcp.sampling.response''")
  case False
  then show ?thesis
    by (simp add: readme_mcp_mcp_events_def assms(1) emitted_def)
next
  case True
  let ?st2 = "emit (Log Info ''Processing sampling response'')
                (emit (Log Debug ''Received MCP event'') st)"
  from True assms(2) obtain st3 where h: "LlmClient_handleResponse ?st2 (ce_data ev) = Inr st3"
    using handleResponse_returns [of "ce_data ev" LlmClientService ?st2] by auto
  then obtain X where "trace st3 = trace ?st2 @ X" "responses X = []"
    using handleResponse_quiet [of LlmClientService ?st2 "ce_data ev" st3] by auto
  then show ?thesis
    by (simp add: readme_mcp_mcp_events_def assms(1) True h emitted_def)
qed

text \<open>
  Claim C9, amended. A body that fails the CloudEvent schema never reaches
  \<^verbatim>\<open>handleResponse\<close>: the endpoint logs an error, answers 500 once and leaves the bridge
  otherwise unchanged. A body that passes the schema and whose data is neither \<^verbatim>\<open>null\<close>
  nor \<^verbatim>\<open>undefined\<close> is answered exactly once, with 200, whatever its type and whether or
  not a pending record matches it.
\<close>

theorem valid_events_acknowledged_once:
  "(decodeCloudEvent body = Inl e \<longrightarrow>
      ai_svc_mcp_tool_events st body =
        st\<lparr>trace := trace st @ [Log Info ''Received MCP tool response from Dapr pub/sub'',
                                  Log Debug ''Request body'',
                                  Log Error ''Error processing MCP tool response'',
                                  Respond 500]\<rparr>
    \<and> readme_mcp_mcp_events st body =
        st\<lparr>trace := trace st @ [Log Debug ''Received MCP event'',
                                  Log Error ''Failed to process event'', Respond 500]\<rparr>)
   \<and> (decodeCloudEvent body' = Inr ev \<and> ce_data ev \<noteq> JUndefined \<and> ce_data ev \<noteq> JNull \<longrightarrow>
        responses (emitted st (ai_svc_mcp_tool_events st body')) = [200]
      \<and> responses (emitted st (readme_mcp_mcp_events st body')) = [200])"
  using ai_svc_mcp_tool_events_valid [of body' ev st] readme_mcp_mcp_events_valid [of body' ev st]
  by (auto simp: ai_svc_mcp_tool_events_def readme_mcp_mcp_events_def emit_def)

theorem valid_events_acknowledged_once_witness:
  "decodeCloudEvent (ok_response ''r1'') = Inl ParseError
   \<and> decodeCloudEvent (cloudEvent ''mcp.tool.response'' (ok_response ''r2''))
       = Inr \<lparr>ce_type = ''mcp.tool.response'', ce_id = ''e9'', ce_data = ok_response ''r2''\<rparr>
   \<and> ok_response ''r2'' \<noteq> JUndefined \<and> ok_response ''r2'' \<noteq> JNull
   \<and> ai_svc_mcp_tool_events pending1 (ok_response ''r1'') =
        pending1\<lparr>trace := [Log Info ''Received MCP tool response from Dapr pub/sub'',
                            Log Debug ''Request body'',
                            Log Error ''Error processing MCP tool response'', Respond 500]\<rparr>
   \<and> responses (emitted pending1 (ai_svc_mcp_tool_events pending1
                      (cloudEvent ''mcp.tool.response'' (ok_response ''r2'')))) = [200]
   \<and> responses (emitted pending1 (readme_mcp_mcp_events pending1
                      (cloudEvent ''mcp.tool.response'' (ok_response ''r2'')))) = [200]"
proof -
  have a: "decodeCloudEvent (ok_response ''r1'') = Inl ParseError"
    by (simp add: ok_response_def required_string_def)
  have b: "decodeCloudEvent (cloudEvent ''mcp.tool.response'' (ok_response ''r2''))
       = Inr \<lparr>ce_type = ''mcp.tool.response'', ce_id = ''e9'', ce_data = ok_response ''r2''\<rparr>"
    by (simp add: cloudEvent_def required_string_def optional_string_def field_def)
  have c: "ok_response ''r2'' \<noteq> JUndefined \<and> ok_response ''r2'' \<noteq> JNull"
    by (simp add: ok_response_def)
  have t: "trace pending1 = []"
    by (simp add: pending1_def)
  from valid_events_acknowledged_once
         [where body = "ok_response ''r1''" and e = ParseError and st = pending1
            and body' = "cloudEvent ''mcp.tool.response'' (ok_response ''r2'')"
            and ev = "\<lparr>ce_type = ''mcp.tool.response'', ce_id = ''e9'',
                       ce_data = ok_response ''r2''\<rparr>"]
       a b c t
  show ?thesis by simp
qed

section \<open>Routing of /ai-events\<close>

text \<open>
  Claim C10, as stated, fails: an event of type \<^verbatim>\<open>agent.request\<close> whose data has a truthy
  \<^verbatim>\<open>requestId\<close> is handled as an agent request, not as a sampling request, because the type
  is tested first. With an \<^verbatim>\<open>agentId\<close> in the data the message handler can succeed and the
  event is answered 200; without one the message handler fails on its schema, whatever
  the agent would do, and the event is answered 500; the sampling service is called in
  neither case.
\<close>

theorem sampling_route_counterexample:
  "decodeCloudEvent (cloudEvent ''agent.request'' agent_request_with_id)
     = Inr \<lparr>ce_type = ''agent.request'', ce_id = ''e9'', ce_data = agent_request_with_id\<rparr>
   \<and> AgentRequestDataSchema agent_request_with_id
   \<and> get_prop agent_request_with_id ''requestId'' = Inr (JStr ''r1'')
   \<and> truthy (JStr ''r1'')
   \<and> ai_events_route \<lparr>ce_type = ''agent.request'', ce_id = ''e9'',
                        ce_data = agent_request_with_id\<rparr> = Inr AgentRequest
   \<and> trace (ai_events cfg0 aenv0 init (cloudEvent ''agent.request'' agent_request_with_id))
       = [Log Info ''Received AI event from Dapr pub/sub'', Log Debug ''Request body'',
          Invoke ''messageHandler.handleMessage'', Respond 200]
   \<and> \<not> AgentRequestDataSchema (JObj [(''requestId'', JStr ''r1'')])
   \<and> trace (ai_events cfg0 aenv0 init
               (cloudEvent ''agent.request'' (JObj [(''requestId'', JStr ''r1'')])))
       = [Log Info ''Received AI event from Dapr pub/sub'', Log Debug ''Request body'',
          Invoke ''messageHandler.handleMessage'', Log Error ''Error processing AI event'',
          Log Error ''Error type'', Respond 500]"
  by (simp add: cloudEvent_def agent_request_with_id_def required_string_def optional_string_def
        optional_record_def field_def ai_events_route_def ai_events_def ai_events_failed_def
        aenv0_def init_def emit_def)

lemma ai_events_route_cases:
  assumes "ce_data ev \<noteq> JUndefined" and "ce_data ev \<noteq> JNull"
  shows "\<exists>requestId. get_prop (ce_data ev) ''requestId'' = Inr requestId
          \<and> ai_events_route ev =
                Inr (if ce_type ev = ''agent.request'' then AgentRequest
                     else if ce_type ev = ''sampling.request'' \<or> truthy requestId
                          then SamplingRequest else UnknownType)"
  using get_prop_non_nullish [OF assms, of "''requestId''"]
  by (auto simp: ai_events_route_def)

text \<open>
  Claim C10, amended. For a validated CloudEvent whose data is neither \<^verbatim>\<open>null\<close> nor
  \<^verbatim>\<open>undefined\<close> (so that \<^verbatim>\<open>data.requestId\<close> can be read): type \<^verbatim>\<open>agent.request\<close> calls the
  message handler and nothing else; any other type calls the sampling service when the
  type is \<^verbatim>\<open>sampling.request\<close> or \<^verbatim>\<open>data.requestId\<close> is truthy; and an event that is neither
  calls no collaborator and is answered 400.
\<close>

theorem ai_events_routing:
  assumes "decodeCloudEvent body = Inr ev"
    and "get_prop (ce_data ev) ''requestId'' = Inr requestId"
  shows "(ce_type ev = ''agent.request'' \<longrightarrow>
            invoked (emitted st (ai_events cfg env st body)) = [''messageHandler.handleMessage''])
       \<and> (ce_type ev \<noteq> ''agent.request''
            \<and> (ce_type ev = ''sampling.request'' \<or> truthy requestId) \<longrightarrow>
            invoked (emitted st (ai_events cfg env st body)) = [''samplingService.sample''])
       \<and> (ce_type ev \<noteq> ''agent.request'' \<and> ce_type ev \<noteq> ''sampling.request''
            \<and> \<not> truthy requestId \<longrightarrow>
            invoked (emitted st (ai_events cfg env st body)) = []
            \<and> responses (emitted st (ai_events cfg env st body)) = [400])"
  using assms
  by (auto simp: ai_events_def ai_events_route_def ai_events_failed_def publishEvent_ai_svc_def
        Let_def emitted_def split: option.split)

theorem ai_events_routing_witness:
  "invoked (emitted init (ai_events cfg0 aenv0 init
      (cloudEvent ''agent.request'' (JObj [(''requestId'', JStr ''r1'')]))))
     = [''messageHandler.handleMessage'']
   \<and> invoked (emitted init (ai_events cfg0 aenv0 init
      (cloudEvent ''mcp.tool.request'' (JObj [(''requestId'', JStr ''r1'')]))))
     = [''samplingService.sample'']
   \<and> invoked (emitted init (ai_events cfg0 aenv0 init
      (cloudEvent ''mcp.tool.request'' (JObj [(''tool'', JStr ''validate-readme'')])))) = []
   \<and> responses (emitted init (ai_events cfg0 aenv0 init
      (cloudEvent ''mcp.tool.request'' (JObj [(''tool'', JStr ''validate-readme'')])))) = [400]"
proof -
  have d: "decodeCloudEvent (cloudEvent t v) = Inr \<lparr>ce_type = t, ce_id = ''e9'', ce_data = v\<rparr>"
    for t v
    by (simp add: cloudEvent_def required_string_def optional_string_def field_def)
  have g1: "get_prop (ce_data \<lparr>ce_type = t, ce_id = ''e9'',
                               ce_data = JObj [(''requestId'', JStr ''r1'')]\<rparr>) ''requestId''
              = Inr (JStr ''r1'')" for t
    by (simp add: field_def)
  have g2: "get_prop (ce_data \<lparr>ce_type = t, ce_id = ''e9'',
                               ce_data = JObj [(''tool'', JStr ''validate-readme'')]\<rparr>)
              ''requestId'' = Inr JUndefined" for t
    by (simp add: field_def)
  from ai_events_routing [OF d g1, of "''agent.request''" init cfg0 aenv0]
       ai_events_routing [OF d g1, of "''mcp.tool.request''" init cfg0 aenv0]
       ai_events_routing [OF d g2, of "''mcp.tool.request''" init cfg0 aenv0]
  show ?thesis by simp
qed

section \<open>A remote error waits for the timer\<close>

lemma race_error_then_timer:
  assumes "pendingRequests st5 rid = Some pr" and "deferreds st5 (deferred pr) = None"
    and "field fs ''requestId'' = JStr rid" and "truthy (field fs ''error'')"
  shows "fst (race McpBridgeService terr rid (deferred pr) Racing st5 [Deliver (JObj fs)]) = None"
    and "fst (race McpBridgeService terr rid (deferred pr) Racing st5
                [Deliver (JObj fs), TimerFires])
           = Some (Inl (Parallel (Fail (McpToolError (tool_name pr) (field fs ''error'')))
                                 (Fail terr)))"
    and "fst (race LlmClientService terr rid (deferred pr) Racing st5 [Deliver (JObj fs)]) = None"
    and "fst (race LlmClientService terr rid (deferred pr) Racing st5
                [Deliver (JObj fs), TimerFires])
           = Some (Inl (Parallel (Fail (LlmClientError ''sample'' (field fs ''error'')))
                                 (Fail terr)))"
  using assms
  by (simp_all add: deliver_def McpBridge_handleResponse_def LlmClient_handleResponse_def
        Deferred_fail_def Deferred_done_deferreds Let_def)

text \<open>
  Claim C2 at its failing input. When a response that reports an error is delivered
  before the timer, \<^verbatim>\<open>Deferred.await\<close> fails, but \<^verbatim>\<open>Effect.race\<close> does not end on a failure:
  the call stays suspended, the timer is not cancelled, and when it fires the timeout arm
  deletes the record and fails too. The call then fails with both errors, the remote one
  and the timeout one: the timer that fires after the delivery is not a no-op, and the
  outcome of the call comes from both events.
\<close>

theorem remote_error_waits_for_timer:
  assumes "publishOk env" and "events env = [Deliver (JObj fs), TimerFires]"
    and "field fs ''requestId'' = JStr (uuid env)" and "truthy (field fs ''error'')"
  shows "fst (callTool cfg (env\<lparr>events := [Deliver (JObj fs)]\<rparr>) st tool args) = None
       \<and> fst (callTool cfg env st tool args)
           = Some (Inl (Parallel (Fail (McpToolError tool (field fs ''error'')))
                                 (Fail (McpToolTimeoutError tool (uuid env) toolTimeout))))
       \<and> fst (sample cfg (env\<lparr>events := [Deliver (JObj fs)]\<rparr>) st prompt model temperature)
           = None
       \<and> fst (sample cfg env st prompt model temperature)
           = Some (Inl (Parallel (Fail (LlmClientError ''sample'' (field fs ''error'')))
                                 (Fail (TimeoutError ''sample'' (samplingTimeout cfg)
                                    (''Sampling request '' @ uuid env @ '' timed out after ''
                                       @ digits (samplingTimeout cfg) @ ''ms'')))))"
proof -
  let ?env' = "env\<lparr>events := [Deliver (JObj fs)]\<rparr>"
  let ?pr = "\<lparr>deferred = nextDeferred st, timestamp = now env, toolName = Some tool\<rparr>"
  let ?pr' = "\<lparr>deferred = nextDeferred st, timestamp = now env, toolName = None\<rparr>"
  have ok': "publishOk ?env'" using assms(1) by simp
  have a: "fst (callTool cfg env' st tool args) =
             fst (race McpBridgeService (McpToolTimeoutError tool (uuid env) toolTimeout)
                    (uuid env) (deferred ?pr) Racing st5 (events env'))
           \<Longrightarrow> pendingRequests st5 (uuid env) = Some ?pr
           \<Longrightarrow> deferreds st5 (deferred ?pr) = None
           \<Longrightarrow> events env' = es \<Longrightarrow> es = [Deliver (JObj fs)] \<or> es = [Deliver (JObj fs), TimerFires]
           \<Longrightarrow> fst (callTool cfg env' st tool args) =
                 (if es = [Deliver (JObj fs)] then None
                  else Some (Inl (Parallel (Fail (McpToolError tool (field fs ''error'')))
                         (Fail (McpToolTimeoutError tool (uuid env) toolTimeout)))))"
    for env' st5 es
    using race_error_then_timer(1,2) [of st5 "uuid env" ?pr fs] assms(3,4)
    by (auto simp: tool_name_def)
  have b: "fst (sample cfg env' st prompt model temperature) =
             fst (race LlmClientService terr (uuid env) (deferred ?pr') Racing st5 (events env'))
           \<Longrightarrow> pendingRequests st5 (uuid env) = Some ?pr'
           \<Longrightarrow> deferreds st5 (deferred ?pr') = None
           \<Longrightarrow> events env' = es \<Longrightarrow> es = [Deliver (JObj fs)] \<or> es = [Deliver (JObj fs), TimerFires]
           \<Longrightarrow> fst (sample cfg env' st prompt model temperature) =
                 (if es = [Deliver (JObj fs)] then None
                  else Some (Inl (Parallel (Fail (LlmClientError ''sample'' (field fs ''error'')))
                         (Fail terr))))"
    for env' st5 es terr
    using race_error_then_timer(3,4) [of st5 "uuid env" ?pr' fs] assms(3,4)
    by auto
  have c1: "fst (callTool cfg ?env' st tool args) = None"
    using callTool_published [OF ok', of cfg st tool args] a [of ?env' _ "[Deliver (JObj fs)]"]
    by (auto simp: cleanup_fst)
  have c2: "fst (callTool cfg env st tool args)
           = Some (Inl (Parallel (Fail (McpToolError tool (field fs ''error'')))
                                 (Fail (McpToolTimeoutError tool (uuid env) toolTimeout))))"
    using callTool_published [OF assms(1), of cfg st tool args]
          a [of env _ "[Deliver (JObj fs), TimerFires]"] assms(2)
    by (auto simp: cleanup_fst)
  have s1: "fst (sample cfg ?env' st prompt model temperature) = None"
    using sample_published [OF ok', of cfg st prompt model temperature]
          b [of ?env' _ _ "[Deliver (JObj fs)]"]
    by (auto simp: cleanup_fst)
  have s2: "fst (sample cfg env st prompt model temperature)
           = Some (Inl (Parallel (Fail (LlmClientError ''sample'' (field fs ''error'')))
                                 (Fail (TimeoutError ''sample'' (samplingTimeout cfg)
                                    (''Sampling request '' @ uuid env @ '' timed out after ''
                                       @ digits (samplingTimeout cfg) @ ''ms'')))))"
    using sample_published [OF assms(1), of cfg st prompt model temperature]
          b [of env _ _ "[Deliver (JObj fs), TimerFires]"] assms(2)
    by (auto simp: cleanup_fst)
  from c1 c2 s1 s2 show ?thesis by blast
qed

theorem remote_error_waits_for_timer_witness:
  "publishOk (env0 True [Deliver (JObj [(''requestId'', JStr ''r1''),
                                        (''error'', JStr ''invalid arguments'')]), TimerFires])
   \<and> truthy (field [(''requestId'', JStr ''r1''), (''error'', JStr ''invalid arguments'')]
                ''error'')
   \<and> fst (callTool cfg0
            (env0 True [Deliver (JObj [(''requestId'', JStr ''r1''),
                                       (''error'', JStr ''invalid arguments'')]), TimerFires])
            init ''validate-readme'' (JObj []))
       = Some (Inl (Parallel
                      (Fail (McpToolError ''validate-readme'' (JStr ''invalid arguments'')))
                      (Fail (McpToolTimeoutError ''validate-readme'' ''r1'' 30000))))"
proof -
  let ?fs = "[(''requestId'', JStr ''r1''), (''error'', JStr ''invalid arguments'')]"
  let ?env = "env0 True [Deliver (JObj ?fs), TimerFires]"
  have p: "publishOk ?env" by (simp add: env0_def)
  have e: "events ?env = [Deliver (JObj ?fs), TimerFires]" by (simp add: env0_def)
  have f: "field ?fs ''requestId'' = JStr (uuid ?env)" by (simp add: env0_def field_def)
  have t: "truthy (field ?fs ''error'')" by (simp add: field_def)
  from remote_error_waits_for_timer [OF p e f t, of cfg0 init "''validate-readme''" "JObj []"]
       p t
  show ?thesis by (simp add: env0_def field_def toolTimeout_def)
qed

end
